theory Spec2Isabelle
  imports Complex_Main "HOL-Library.Signed_Division" "HOL-Library.AList"
begin

section \<open>Block types and the block descriptor table\<close>

text \<open>
  \<^verbatim>\<open>BlockType\<close> is a numeric TypeScript enum; a block type is its code. JavaScript numbers
  that hold block or chunk coordinates are integers here, all other numbers (noise values,
  heights before flooring, hardness, vertex positions) are reals: IEEE rounding is not modelled.
\<close>

type_synonym BlockType = nat

definition AIR :: BlockType where "AIR = 0"
definition GRASS :: BlockType where "GRASS = 1"
definition DIRT :: BlockType where "DIRT = 2"
definition STONE :: BlockType where "STONE = 3"
definition WOOD :: BlockType where "WOOD = 4"
definition LEAVES :: BlockType where "LEAVES = 5"
definition SAND :: BlockType where "SAND = 6"
definition BRICK :: BlockType where "BRICK = 7"
definition SNOW :: BlockType where "SNOW = 8"
definition ICE :: BlockType where "ICE = 9"
definition CACTUS :: BlockType where "CACTUS = 10"
definition TALL_GRASS :: BlockType where "TALL_GRASS = 11"
definition WATER :: BlockType where "WATER = 12"
definition SANDSTONE :: BlockType where "SANDSTONE = 13"
definition GRAVEL :: BlockType where "GRAVEL = 14"
definition RED_SAND :: BlockType where "RED_SAND = 15"
definition CLAY :: BlockType where "CLAY = 16"
definition PODZOL :: BlockType where "PODZOL = 17"
definition PLANKS :: BlockType where "PLANKS = 18"
definition BEDROCK :: BlockType where "BEDROCK = 19"
definition BIRCH_LOG :: BlockType where "BIRCH_LOG = 20"
definition BIRCH_LEAVES :: BlockType where "BIRCH_LEAVES = 21"
definition SPRUCE_LOG :: BlockType where "SPRUCE_LOG = 22"
definition SPRUCE_LEAVES :: BlockType where "SPRUCE_LEAVES = 23"
definition JUNGLE_LOG :: BlockType where "JUNGLE_LOG = 24"
definition JUNGLE_LEAVES :: BlockType where "JUNGLE_LEAVES = 25"
definition ACACIA_LOG :: BlockType where "ACACIA_LOG = 26"
definition ACACIA_LEAVES :: BlockType where "ACACIA_LEAVES = 27"
definition CRAFTING_TABLE :: BlockType where "CRAFTING_TABLE = 28"
definition COBBLESTONE :: BlockType where "COBBLESTONE = 29"
definition STICK :: BlockType where "STICK = 30"
definition DIAMOND_BLOCK :: BlockType where "DIAMOND_BLOCK = 31"
definition COAL_ORE :: BlockType where "COAL_ORE = 32"
definition COAL :: BlockType where "COAL = 33"
definition TORCH :: BlockType where "TORCH = 34"
definition WOODEN_PICKAXE :: BlockType where "WOODEN_PICKAXE = 35"
definition WOODEN_AXE :: BlockType where "WOODEN_AXE = 36"
definition WOODEN_SHOVEL :: BlockType where "WOODEN_SHOVEL = 37"
definition WOODEN_SWORD :: BlockType where "WOODEN_SWORD = 38"
definition STONE_PICKAXE :: BlockType where "STONE_PICKAXE = 39"
definition STONE_AXE :: BlockType where "STONE_AXE = 40"
definition STONE_SHOVEL :: BlockType where "STONE_SHOVEL = 41"
definition STONE_SWORD :: BlockType where "STONE_SWORD = 42"
definition RAW_BEEF :: BlockType where "RAW_BEEF = 43"
definition PORKCHOP :: BlockType where "PORKCHOP = 44"
definition MUTTON :: BlockType where "MUTTON = 45"
definition ROTTEN_FLESH :: BlockType where "ROTTEN_FLESH = 46"
definition FLOWING_WATER :: BlockType where "FLOWING_WATER = 47"

lemmas BlockType_defs =
  AIR_def GRASS_def DIRT_def STONE_def WOOD_def LEAVES_def SAND_def BRICK_def SNOW_def ICE_def
  CACTUS_def TALL_GRASS_def WATER_def SANDSTONE_def GRAVEL_def RED_SAND_def CLAY_def PODZOL_def
  PLANKS_def BEDROCK_def BIRCH_LOG_def BIRCH_LEAVES_def SPRUCE_LOG_def SPRUCE_LEAVES_def
  JUNGLE_LOG_def JUNGLE_LEAVES_def ACACIA_LOG_def ACACIA_LEAVES_def CRAFTING_TABLE_def
  COBBLESTONE_def STICK_def DIAMOND_BLOCK_def COAL_ORE_def COAL_def TORCH_def
  WOODEN_PICKAXE_def WOODEN_AXE_def WOODEN_SHOVEL_def WOODEN_SWORD_def STONE_PICKAXE_def
  STONE_AXE_def STONE_SHOVEL_def STONE_SWORD_def RAW_BEEF_def PORKCHOP_def MUTTON_def
  ROTTEN_FLESH_def FLOWING_WATER_def

datatype ToolType = Pickaxe | Axe | Shovel | Sword | NoTool

text \<open>
  \<^verbatim>\<open>BlockProp\<close>: every field but name and color is optional in the source; an absent field
  is \<open>None\<close> (the source tests \<^verbatim>\<open>fluid === undefined\<close> and \<^verbatim>\<open>hardness ?? 1\<close>).
\<close>

record BlockProp =
  name :: string
  color :: nat
  transparent :: "bool option"
  cross :: "bool option"
  fluid :: "bool option"
  hardness :: "real option"
  isItem :: "bool option"
  toolType :: "ToolType option"
  efficiency :: "real option"
  damage :: "real option"
  emissive :: "bool option"
  healAmount :: "real option"

text \<open>JavaScript truthiness of an optional boolean and of an optional number.\<close>

definition truthy :: "bool option \<Rightarrow> bool" where
  "truthy b = (b = Some True)"

definition truthyNum :: "real option \<Rightarrow> bool" where
  "truthyNum r = (case r of None \<Rightarrow> False | Some v \<Rightarrow> v \<noteq> 0)"

definition mkProp :: "string \<Rightarrow> nat \<Rightarrow> BlockProp" where
  "mkProp n c = \<lparr>name = n, color = c, transparent = None, cross = None, fluid = None,
     hardness = None, isItem = None, toolType = None, efficiency = None, damage = None,
     emissive = None, healAmount = None\<rparr>"

definition CHUNK_SIZE :: int where "CHUNK_SIZE = 16"
definition CHUNK_HEIGHT :: int where "CHUNK_HEIGHT = 256"
definition SEA_LEVEL :: int where "SEA_LEVEL = 63"

text \<open>\<^verbatim>\<open>BLOCK_PROPS\<close> of constants.ts, listed by ascending code, which is also the order in
  which JavaScript enumerates the integer keys of the object.\<close>

definition BLOCK_PROPS_table :: "(BlockType \<times> BlockProp) list" where
  "BLOCK_PROPS_table = [
    (GRASS, (mkProp ''Grass'' 0x55902a)\<lparr>hardness := Some 0.6, toolType := Some Shovel\<rparr>),
    (DIRT, (mkProp ''Dirt'' 0x795548)\<lparr>hardness := Some 0.5, toolType := Some Shovel\<rparr>),
    (STONE, (mkProp ''Stone'' 0x9e9e9e)\<lparr>hardness := Some 1.5, toolType := Some Pickaxe\<rparr>),
    (WOOD, (mkProp ''Oak Wood'' 0x5d4037)\<lparr>hardness := Some 2.0, toolType := Some Axe\<rparr>),
    (LEAVES, (mkProp ''Leaves'' 0x2e7d32)\<lparr>transparent := Some True, hardness := Some 0.2\<rparr>),
    (SAND, (mkProp ''Sand'' 0xd4c4a8)\<lparr>hardness := Some 0.5, toolType := Some Shovel\<rparr>),
    (BRICK, (mkProp ''Bricks'' 0x8d6e63)\<lparr>hardness := Some 2.0, toolType := Some Pickaxe\<rparr>),
    (SNOW, (mkProp ''Snow'' 0xffffff)\<lparr>hardness := Some 0.3, toolType := Some Shovel\<rparr>),
    (ICE, (mkProp ''Ice'' 0xa5d6f1)\<lparr>transparent := Some True, hardness := Some 0.5\<rparr>),
    (CACTUS, (mkProp ''Cactus'' 0x558b2f)\<lparr>hardness := Some 0.4\<rparr>),
    (TALL_GRASS, (mkProp ''Tall Grass'' 0x55902a)\<lparr>transparent := Some True, cross := Some True,
       hardness := Some 0.0\<rparr>),
    (WATER, (mkProp ''Water'' 0x244b7f)\<lparr>transparent := Some True, fluid := Some True,
       hardness := Some (-1)\<rparr>),
    (SANDSTONE, (mkProp ''Sandstone'' 0xD6C296)\<lparr>hardness := Some 0.8, toolType := Some Pickaxe\<rparr>),
    (GRAVEL, (mkProp ''Gravel'' 0x707070)\<lparr>hardness := Some 0.6, toolType := Some Shovel\<rparr>),
    (RED_SAND, (mkProp ''Red Sand'' 0xD2691E)\<lparr>hardness := Some 0.5, toolType := Some Shovel\<rparr>),
    (CLAY, (mkProp ''Clay'' 0xA2A6B5)\<lparr>hardness := Some 0.6, toolType := Some Shovel\<rparr>),
    (PODZOL, (mkProp ''Podzol'' 0x4E342E)\<lparr>hardness := Some 0.6, toolType := Some Shovel\<rparr>),
    (PLANKS, (mkProp ''Planks'' 0xA0784B)\<lparr>hardness := Some 1.5, toolType := Some Axe\<rparr>),
    (BEDROCK, (mkProp ''Bedrock'' 0x222222)\<lparr>hardness := Some (-1)\<rparr>),
    (BIRCH_LOG, (mkProp ''Birch Log'' 0xE0E0E0)\<lparr>hardness := Some 2.0, toolType := Some Axe\<rparr>),
    (BIRCH_LEAVES, (mkProp ''Birch Leaves'' 0x80A755)\<lparr>transparent := Some True,
       hardness := Some 0.2\<rparr>),
    (SPRUCE_LOG, (mkProp ''Spruce Log'' 0x3E2723)\<lparr>hardness := Some 2.0, toolType := Some Axe\<rparr>),
    (SPRUCE_LEAVES, (mkProp ''Spruce Leaves'' 0x385942)\<lparr>transparent := Some True,
       hardness := Some 0.2\<rparr>),
    (JUNGLE_LOG, (mkProp ''Jungle Log'' 0x554433)\<lparr>hardness := Some 2.0, toolType := Some Axe\<rparr>),
    (JUNGLE_LEAVES, (mkProp ''Jungle Leaves'' 0x228B22)\<lparr>transparent := Some True,
       hardness := Some 0.2\<rparr>),
    (ACACIA_LOG, (mkProp ''Acacia Log'' 0x6D6965)\<lparr>hardness := Some 2.0, toolType := Some Axe\<rparr>),
    (ACACIA_LEAVES, (mkProp ''Acacia Leaves'' 0x667530)\<lparr>transparent := Some True,
       hardness := Some 0.2\<rparr>),
    (CRAFTING_TABLE, (mkProp ''Crafting Table'' 0xA0784B)\<lparr>hardness := Some 2.5,
       toolType := Some Axe\<rparr>),
    (COBBLESTONE, (mkProp ''Cobblestone'' 0x606060)\<lparr>hardness := Some 2.0,
       toolType := Some Pickaxe\<rparr>),
    (STICK, (mkProp ''Stick'' 0x8D6E63)\<lparr>hardness := Some 0.1, isItem := Some True\<rparr>),
    (DIAMOND_BLOCK, (mkProp ''Diamond Block'' 0x00FFFF)\<lparr>hardness := Some 5.0,
       toolType := Some Pickaxe\<rparr>),
    (COAL_ORE, (mkProp ''Coal Ore'' 0x333333)\<lparr>hardness := Some 3.0, toolType := Some Pickaxe\<rparr>),
    (COAL, (mkProp ''Coal'' 0x111111)\<lparr>hardness := Some 0, isItem := Some True\<rparr>),
    (TORCH, (mkProp ''Torch'' 0xFFD700)\<lparr>transparent := Some True, hardness := Some 0.0,
       emissive := Some True\<rparr>),
    (WOODEN_PICKAXE, (mkProp ''Wooden Pickaxe'' 0x8D6E63)\<lparr>hardness := Some 0,
       isItem := Some True, toolType := Some Pickaxe, efficiency := Some 2.0\<rparr>),
    (WOODEN_AXE, (mkProp ''Wooden Axe'' 0x8D6E63)\<lparr>hardness := Some 0, isItem := Some True,
       toolType := Some Axe, efficiency := Some 2.0\<rparr>),
    (WOODEN_SHOVEL, (mkProp ''Wooden Shovel'' 0x8D6E63)\<lparr>hardness := Some 0, isItem := Some True,
       toolType := Some Shovel, efficiency := Some 2.0\<rparr>),
    (WOODEN_SWORD, (mkProp ''Wooden Sword'' 0x8D6E63)\<lparr>hardness := Some 0, isItem := Some True,
       toolType := Some Sword, damage := Some 4.0\<rparr>),
    (STONE_PICKAXE, (mkProp ''Stone Pickaxe'' 0x9e9e9e)\<lparr>hardness := Some 0, isItem := Some True,
       toolType := Some Pickaxe, efficiency := Some 4.0\<rparr>),
    (STONE_AXE, (mkProp ''Stone Axe'' 0x9e9e9e)\<lparr>hardness := Some 0, isItem := Some True,
       toolType := Some Axe, efficiency := Some 4.0\<rparr>),
    (STONE_SHOVEL, (mkProp ''Stone Shovel'' 0x9e9e9e)\<lparr>hardness := Some 0, isItem := Some True,
       toolType := Some Shovel, efficiency := Some 4.0\<rparr>),
    (STONE_SWORD, (mkProp ''Stone Sword'' 0x9e9e9e)\<lparr>hardness := Some 0, isItem := Some True,
       toolType := Some Sword, damage := Some 5.0\<rparr>),
    (RAW_BEEF, (mkProp ''Raw Beef'' 0xD32F2F)\<lparr>isItem := Some True, healAmount := Some 3\<rparr>),
    (PORKCHOP, (mkProp ''Raw Porkchop'' 0xF48FB1)\<lparr>isItem := Some True, healAmount := Some 3\<rparr>),
    (MUTTON, (mkProp ''Raw Mutton'' 0xEF5350)\<lparr>isItem := Some True, healAmount := Some 3\<rparr>),
    (ROTTEN_FLESH, (mkProp ''Rotten Flesh'' 0x6D4C41)\<lparr>isItem := Some True,
       healAmount := Some 1\<rparr>),
    (FLOWING_WATER, (mkProp ''Flowing Water'' 0x244b7f)\<lparr>transparent := Some True,
       fluid := Some True, hardness := Some (-1)\<rparr>)]"

definition BLOCK_PROPS :: "BlockType \<Rightarrow> BlockProp option" where
  "BLOCK_PROPS b = map_of BLOCK_PROPS_table b"


section \<open>The mesher (Chunk.ts, generateChunkMesh)\<close>

text \<open>
  A voxel buffer is the \<^verbatim>\<open>Uint8Array\<close> of \<open>16 * 16 * 256\<close> cells, cell \<open>(x, z, y)\<close> at
  index \<open>x + z * 16 + y * 256\<close>. Every read of the source is guarded by the bounds of the
  local coordinates, so a read is \<open>d ! nat i\<close>. A write outside the array is ignored by a
  typed array, and a stored number is reduced to a byte.
\<close>

type_synonym VoxelBuffer = "nat list"

definition store :: "VoxelBuffer \<Rightarrow> int \<Rightarrow> nat \<Rightarrow> VoxelBuffer" where
  "store d i v = (if 0 \<le> i \<and> i < int (length d) then d[nat i := v mod 256] else d)"

record Geo =
  pos :: "real list"
  norm :: "real list"
  uv :: "real list"
  color :: "real list"

definition emptyGeo :: Geo where
  "emptyGeo = \<lparr>pos = [], norm = [], uv = [], color = []\<rparr>"

type_synonym Geometries = "BlockType \<rightharpoonup> Geo"

text \<open>\<^verbatim>\<open>if (!geometries[bID]) geometries[bID] = {...}; const geo = geometries[bID]\<close>\<close>

definition geoOf :: "Geometries \<Rightarrow> BlockType \<Rightarrow> Geo" where
  "geoOf g b = (case g b of None \<Rightarrow> emptyGeo | Some geo \<Rightarrow> geo)"

definition isTransparent :: "BlockType \<Rightarrow> bool" where
  "isTransparent b = (b = AIR \<or> (case BLOCK_PROPS b of None \<Rightarrow> False | Some p \<Rightarrow> truthy (transparent p)))"

definition isWater :: "BlockType \<Rightarrow> bool" where
  "isWater b = (b = WATER \<or> b = FLOWING_WATER)"

type_synonym BlockLookup = "int \<Rightarrow> int \<Rightarrow> int \<Rightarrow> BlockType"

definition getAO :: "BlockLookup \<Rightarrow> int \<Rightarrow> int \<Rightarrow> int \<Rightarrow> int \<Rightarrow> int \<Rightarrow> bool" where
  "getAO getBlock cx cz x y z = (\<not> isTransparent (getBlock (cx * CHUNK_SIZE + x) y (cz * CHUNK_SIZE + z)))"

type_synonym vec3 = "real \<times> real \<times> real"

text \<open>The four corners \<open>v0 .. v3\<close> of a face with normal \<open>(dx, dy, dz)\<close>.\<close>

definition faceVerts :: "int \<Rightarrow> int \<Rightarrow> int \<Rightarrow> real \<Rightarrow> real \<Rightarrow> vec3 \<times> vec3 \<times> vec3 \<times> vec3" where
  "faceVerts dx dy dz customScale height =
    (let s = customScale; off = (1 - s) / 2; mn = off; xMax = off + s; zMax = off + s;
         yMax = height in
     if dx \<noteq> 0 then
       (let xi = (if dx > 0 then xMax else mn) in
        ((xi, mn, zMax), (xi, mn, mn), (xi, yMax, mn), (xi, yMax, zMax)))
     else if dy \<noteq> 0 then
       (let yi = (if dy > 0 then yMax else mn) in
        ((mn, yi, zMax), (xMax, yi, zMax), (xMax, yi, mn), (mn, yi, mn)))
     else
       (let zi = (if dz > 0 then zMax else mn) in
        ((mn, mn, zi), (xMax, mn, zi), (xMax, yMax, zi), (mn, yMax, zi))))"

definition near :: "vec3 \<Rightarrow> vec3 \<Rightarrow> bool" where
  "near v w = (case v of (vx, vy, vz) \<Rightarrow> case w of (wx, wy, wz) \<Rightarrow>
     \<bar>vx - wx\<bar> < 0.1 \<and> \<bar>vy - wy\<bar> < 0.1 \<and> \<bar>vz - wz\<bar> < 0.1)"

text \<open>
  The two in-plane offsets chosen by the four consecutive \<^verbatim>\<open>if\<close>s of \<^verbatim>\<open>calcVertAO\<close>
  (a later match overwrites an earlier one; both start at 0).
\<close>

definition pickOffsets ::
  "vec3 \<Rightarrow> vec3 \<Rightarrow> vec3 \<Rightarrow> vec3 \<Rightarrow> vec3 \<Rightarrow> int \<times> int \<Rightarrow> int \<times> int \<Rightarrow> int \<times> int \<Rightarrow> int \<times> int \<Rightarrow> int \<times> int" where
  "pickOffsets v v0 v1 v2 v3 o0 o1 o2 o3 =
    (let st = (0, 0);
         st = (if near v v0 then o0 else st);
         st = (if near v v1 then o1 else st);
         st = (if near v v2 then o2 else st);
         st = (if near v v3 then o3 else st)
     in st)"

text \<open>The offsets \<open>(sx1, sy1, sz1)\<close> and \<open>(sx2, sy2, sz2)\<close> of the two edge neighbours.\<close>

definition sideOffsets ::
  "int \<Rightarrow> int \<Rightarrow> int \<Rightarrow> vec3 \<Rightarrow> vec3 \<Rightarrow> vec3 \<Rightarrow> vec3 \<Rightarrow> vec3 \<Rightarrow> (int \<times> int \<times> int) \<times> (int \<times> int \<times> int)" where
  "sideOffsets dx dy dz v0 v1 v2 v3 v =
    (if dx \<noteq> 0 then
       (case pickOffsets v v0 v1 v2 v3 (-1, 1) (-1, -1) (1, -1) (1, 1) of
          (sy1, sz2) \<Rightarrow> ((dx, sy1, 0), (dx, 0, sz2)))
     else if dy \<noteq> 0 then
       (case pickOffsets v v0 v1 v2 v3 (-1, 1) (1, 1) (1, -1) (-1, -1) of
          (sx1, sz2) \<Rightarrow> ((sx1, dy, 0), (0, dy, sz2)))
     else
       (case pickOffsets v v0 v1 v2 v3 (-1, -1) (-1, -1) (1, 1) (-1, 1) of
          (sx1, sy2) \<Rightarrow> ((sx1, 0, dz), (0, sy2, dz))))"

text \<open>
  \<^verbatim>\<open>(dx||0 + dy||0 + dz||0)\<close>: \<^verbatim>\<open>+\<close> binds tighter than \<^verbatim>\<open>||\<close>, so the expression is
  \<^verbatim>\<open>dx || (0 + dy) || (0 + dz) || 0\<close>, the first non-zero of the three.
\<close>

definition firstNonZero :: "int \<Rightarrow> int \<Rightarrow> int \<Rightarrow> int" where
  "firstNonZero dx dy dz = (if dx \<noteq> 0 then dx else if dy \<noteq> 0 then dy else if dz \<noteq> 0 then dz else 0)"

definition aoWeight :: "bool \<Rightarrow> bool \<Rightarrow> bool \<Rightarrow> real" where
  "aoWeight side1 side2 corner =
    (if side1 \<and> side2 then 0
     else (let count = (if side1 then 1 else 0) + (if side2 then 1 else 0) + (if corner then 1 else (0::real))
           in 1.0 - count * 0.2))"

definition calcVertAO ::
  "BlockLookup \<Rightarrow> int \<Rightarrow> int \<Rightarrow> int \<Rightarrow> int \<Rightarrow> int \<Rightarrow> int \<Rightarrow> int \<Rightarrow> int \<Rightarrow> vec3 \<Rightarrow> vec3 \<Rightarrow> vec3 \<Rightarrow> vec3 \<Rightarrow> vec3 \<Rightarrow> real" where
  "calcVertAO getBlock cx cz x y z dx dy dz v0 v1 v2 v3 v =
    (case sideOffsets dx dy dz v0 v1 v2 v3 v of ((sx1, sy1, sz1), (sx2, sy2, sz2)) \<Rightarrow>
      (let side1 = getAO getBlock cx cz (x + sx1) (y + sy1) (z + sz1);
           side2 = getAO getBlock cx cz (x + sx2) (y + sy2) (z + sz2);
           k = firstNonZero dx dy dz;
           corner = getAO getBlock cx cz (x + sx1 + sx2 - k) (y + sy1 + sy2 - k) (z + sz1 + sz2 - k)
       in aoWeight side1 side2 corner))"

definition vpos :: "int \<Rightarrow> int \<Rightarrow> int \<Rightarrow> vec3 \<Rightarrow> real list" where
  "vpos x y z v = (case v of (a, b, c) \<Rightarrow> [real_of_int x + a, real_of_int y + b, real_of_int z + c])"

definition rep3 :: "real \<Rightarrow> real list" where
  "rep3 a = [a, a, a]"

definition addFace ::
  "bool \<Rightarrow> BlockLookup \<Rightarrow> int \<Rightarrow> int \<Rightarrow> Geometries \<Rightarrow> BlockType \<Rightarrow> int \<Rightarrow> int \<Rightarrow> int \<Rightarrow> int \<Rightarrow> int \<Rightarrow> int \<Rightarrow> real \<Rightarrow> real \<Rightarrow> Geometries" where
  "addFace smoothLighting getBlock cx cz geometries bID x y z dx dy dz customScale height =
    (let geo = geoOf geometries bID in
     case faceVerts dx dy dz customScale height of (v0, v1, v2, v3) \<Rightarrow>
     (let nrm = concat (replicate 6 [real_of_int dx, real_of_int dy, real_of_int dz]);
          useAO = (smoothLighting \<and> customScale = 1.0 \<and> \<not> isWater bID);
          ao = (\<lambda>v. if useAO then calcVertAO getBlock cx cz x y z dx dy dz v0 v1 v2 v3 v else 1);
          ao0 = ao v0; ao1 = ao v1; ao2 = ao v2; ao3 = ao v3;
          flat = concat (replicate 6 [1, 1, 1])
      in if dx < 0 \<or> dy < 0 \<or> dz < 0 then
           geometries(bID \<mapsto> geo\<lparr>
             pos := pos geo @ vpos x y z v0 @ vpos x y z v2 @ vpos x y z v1
                            @ vpos x y z v0 @ vpos x y z v3 @ vpos x y z v2,
             norm := norm geo @ nrm,
             uv := uv geo @ [0,0, 1,1, 1,0] @ [0,0, 0,1, 1,1],
             color := color geo @
               (if smoothLighting then rep3 ao0 @ rep3 ao2 @ rep3 ao1 @ rep3 ao0 @ rep3 ao3 @ rep3 ao2
                else flat)\<rparr>)
         else
           geometries(bID \<mapsto> geo\<lparr>
             pos := pos geo @ vpos x y z v0 @ vpos x y z v1 @ vpos x y z v2
                            @ vpos x y z v0 @ vpos x y z v2 @ vpos x y z v3,
             norm := norm geo @ nrm,
             uv := uv geo @ [0,0, 1,0, 1,1] @ [0,0, 1,1, 0,1],
             color := color geo @
               (if smoothLighting then rep3 ao0 @ rep3 ao1 @ rep3 ao2 @ rep3 ao0 @ rep3 ao2 @ rep3 ao3
                else flat)\<rparr>)))"

text \<open>\<^verbatim>\<open>check\<close>: is the face of cell \<open>(x, y, z)\<close> towards \<open>(dx, dy, dz)\<close> exposed?\<close>

definition check ::
  "VoxelBuffer \<Rightarrow> BlockLookup \<Rightarrow> int \<Rightarrow> int \<Rightarrow> BlockType \<Rightarrow> int \<Rightarrow> int \<Rightarrow> int \<Rightarrow> int \<Rightarrow> int \<Rightarrow> int \<Rightarrow> bool" where
  "check chunkData getBlock cx cz bID x y z dx dy dz =
    (let nx = x + dx; ny = y + dy; nz = z + dz in
     if nx \<ge> 0 \<and> nx < CHUNK_SIZE \<and> nz \<ge> 0 \<and> nz < CHUNK_SIZE \<and> ny \<ge> 0 \<and> ny < CHUNK_HEIGHT then
       (let nb = chunkData ! nat (nx + nz * 16 + ny * 256) in
        isTransparent nb \<and> (\<not> isWater bID \<or> \<not> isWater nb))
     else
       (let gb = getBlock (cx * CHUNK_SIZE + nx) ny (cz * CHUNK_SIZE + nz) in
        isTransparent gb \<and> (\<not> isWater bID \<or> \<not> isWater gb)))"

text \<open>The two crossed quads of a flora block, pushed straight into the geometry.\<close>

definition addCross :: "Geometries \<Rightarrow> BlockType \<Rightarrow> int \<Rightarrow> int \<Rightarrow> int \<Rightarrow> Geometries" where
  "addCross geometries bID x y z =
    (let g = geoOf geometries bID;
         x0 = real_of_int x; x1 = real_of_int x + 1; y0 = real_of_int y; y1 = real_of_int y + 1;
         z0 = real_of_int z; z1 = real_of_int z + 1;
         up = concat (replicate 6 [0, 1, 0]); white = concat (replicate 6 [1, 1, 1]);
         quadUv = [0,0, 1,0, 1,1, 0,0, 1,1, 0,1]
     in geometries(bID \<mapsto> g\<lparr>
          pos := pos g @ [x0,y0,z0, x1,y0,z1, x1,y1,z1, x0,y0,z0, x1,y1,z1, x0,y1,z0]
                       @ [x0,y0,z1, x1,y0,z0, x1,y1,z0, x0,y0,z1, x1,y1,z0, x0,y1,z1],
          norm := norm g @ up @ up,
          uv := uv g @ quadUv @ quadUv,
          color := color g @ white @ white\<rparr>))"

text \<open>One optional face: \<^verbatim>\<open>if (check(dx,dy,dz)) addFace(bID, x,y,z, dx,dy,dz, 1.0, waterHeight)\<close>.\<close>

definition checkedFace ::
  "VoxelBuffer \<Rightarrow> bool \<Rightarrow> BlockLookup \<Rightarrow> int \<Rightarrow> int \<Rightarrow> BlockType \<Rightarrow> int \<Rightarrow> int \<Rightarrow> int \<Rightarrow> real \<Rightarrow> int \<times> int \<times> int \<Rightarrow> Geometries \<Rightarrow> Geometries" where
  "checkedFace chunkData smoothLighting getBlock cx cz bID x y z waterHeight d geometries =
    (case d of (dx, dy, dz) \<Rightarrow>
      if check chunkData getBlock cx cz bID x y z dx dy dz
      then addFace smoothLighting getBlock cx cz geometries bID x y z dx dy dz 1.0 waterHeight
      else geometries)"

definition directions :: "(int \<times> int \<times> int) list" where
  "directions = [(1, 0, 0), (-1, 0, 0), (0, 1, 0), (0, -1, 0), (0, 0, 1), (0, 0, -1)]"

text \<open>The body of the innermost loop, for block type \<open>bID\<close> with descriptor \<open>props\<close>.\<close>

definition meshCell ::
  "VoxelBuffer \<Rightarrow> bool \<Rightarrow> BlockLookup \<Rightarrow> int \<Rightarrow> int \<Rightarrow> BlockType \<Rightarrow> BlockProp \<Rightarrow> int \<Rightarrow> int \<Rightarrow> int \<Rightarrow> Geometries \<Rightarrow> Geometries" where
  "meshCell chunkData smoothLighting getBlock cx cz bID props x z y geometries =
    (if chunkData ! nat (x + z * CHUNK_SIZE + y * 256) \<noteq> bID then geometries
     else
       (let waterHeight =
              (if isWater bID \<and> \<not> isWater (getBlock (cx * CHUNK_SIZE + x) (y + 1) (cz * CHUNK_SIZE + z))
               then 0.9 else 1.0)
        in if truthy (cross props) then addCross geometries bID x y z
           else if bID = TORCH then
             fold (\<lambda>d g. case d of (dx, dy, dz) \<Rightarrow>
                     addFace smoothLighting getBlock cx cz g bID x y z dx dy dz 0.2 1.0)
                  directions geometries
           else
             fold (checkedFace chunkData smoothLighting getBlock cx cz bID x y z waterHeight)
                  directions geometries))"

definition meshBlockType ::
  "VoxelBuffer \<Rightarrow> bool \<Rightarrow> BlockLookup \<Rightarrow> int \<Rightarrow> int \<Rightarrow> BlockType \<times> BlockProp \<Rightarrow> Geometries \<Rightarrow> Geometries" where
  "meshBlockType chunkData smoothLighting getBlock cx cz entry geometries =
    (case entry of (bID, props) \<Rightarrow>
      if bID = AIR then geometries
      else fold (\<lambda>x. fold (\<lambda>z. fold (meshCell chunkData smoothLighting getBlock cx cz bID props x z)
                                     [0 .. CHUNK_HEIGHT - 1])
                              [0 .. CHUNK_SIZE - 1])
                [0 .. CHUNK_SIZE - 1] geometries)"

text \<open>
  One \<^verbatim>\<open>THREE.Mesh\<close> of the returned group: the geometry of one block type with the flags
  the source sets on it (\<^verbatim>\<open>renderOrder\<close>, \<^verbatim>\<open>castShadow\<close>, \<^verbatim>\<open>receiveShadow\<close>). The
  material comes from the renderer's table and is not modelled.
\<close>

record SubMesh =
  blockId :: BlockType
  geometry :: Geo
  renderOrder :: nat
  castShadow :: bool
  receiveShadow :: bool

type_synonym Mesh = "SubMesh list"

definition toSubMesh :: "Geometries \<Rightarrow> BlockType \<Rightarrow> SubMesh option" where
  "toSubMesh geometries bID =
    (case geometries bID of
       None \<Rightarrow> None
     | Some geo \<Rightarrow>
        if length (pos geo) > 0 then
          Some (if isWater bID then
                  \<lparr>blockId = bID, geometry = geo, renderOrder = 1, castShadow = False, receiveShadow = True\<rparr>
                else if bID = TORCH \<or> bID = TALL_GRASS then
                  \<lparr>blockId = bID, geometry = geo, renderOrder = 0, castShadow = False, receiveShadow = False\<rparr>
                else
                  \<lparr>blockId = bID, geometry = geo, renderOrder = 0, castShadow = True, receiveShadow = True\<rparr>)
        else None)"

definition generateChunkMesh :: "VoxelBuffer \<Rightarrow> bool \<Rightarrow> BlockLookup \<Rightarrow> int \<Rightarrow> int \<Rightarrow> Mesh" where
  "generateChunkMesh chunkData smoothLighting getBlock cx cz =
    (let geometries = fold (meshBlockType chunkData smoothLighting getBlock cx cz) BLOCK_PROPS_table Map.empty
     in List.map_filter (toSubMesh geometries) (map fst BLOCK_PROPS_table))"



section \<open>Terrain synthesis (Chunk.ts, generateChunkData)\<close>

text \<open>
  The two coherent-noise closures come from the simplex-noise package, seeded in the
  constructor; they are fields of the chunk manager here. \<^verbatim>\<open>Math.random()\<close> is the
  sequence of its future results: a call returns the head and leaves the rest.
\<close>

record ChunkManager =
  noise2D :: "real \<Rightarrow> real \<Rightarrow> real"
  noise3D :: "real \<Rightarrow> real \<Rightarrow> real \<Rightarrow> real"
  seedOffset :: real

datatype WorldType = Default | Flat | Mountains

type_synonym Random = "nat \<Rightarrow> real"

definition mathRandom :: "Random \<Rightarrow> real \<times> Random" where
  "mathRandom r = (r 0, \<lambda>n. r (Suc n))"

text \<open>\<^verbatim>\<open>Math.abs(Math.sin(x * 12.9898 + z * 78.233 + seed) * 43758.5453) % 1\<close>\<close>

definition rand :: "real \<Rightarrow> real \<Rightarrow> real \<Rightarrow> real" where
  "rand x z seed = (let v = \<bar>sin (x * 12.9898 + z * 78.233 + seed) * 43758.5453\<bar> in v - of_int \<lfloor>v\<rfloor>)"

text \<open>
  The modification overlay is a \<^verbatim>\<open>Map\<close> from the key \<^verbatim>\<open>`${x},${y},${z}`\<close> to a block type,
  iterated in insertion order. A key is the integer triple it prints; \<^verbatim>\<open>Map.set\<close> is
  \<open>AList.update\<close> (an existing key keeps its place, a new one goes last).
\<close>

type_synonym Overlay = "((int \<times> int \<times> int) \<times> BlockType) list"

definition applyModification :: "int \<Rightarrow> int \<Rightarrow> (int \<times> int \<times> int) \<times> BlockType \<Rightarrow> VoxelBuffer \<Rightarrow> VoxelBuffer" where
  "applyModification cx cz entry data =
    (case entry of ((gx, gy, gz), val) \<Rightarrow>
      (let minX = cx * CHUNK_SIZE; maxX = (cx + 1) * CHUNK_SIZE;
           minZ = cz * CHUNK_SIZE; maxZ = (cz + 1) * CHUNK_SIZE in
       if gx \<ge> minX \<and> gx < maxX \<and> gz \<ge> minZ \<and> gz < maxZ \<and> gy \<ge> 0 \<and> gy < CHUNK_HEIGHT then
         (let lx = (gx smod CHUNK_SIZE + CHUNK_SIZE) smod CHUNK_SIZE;
              lz = (gz smod CHUNK_SIZE + CHUNK_SIZE) smod CHUNK_SIZE
          in store data (lx + lz * CHUNK_SIZE + gy * 256) val)
       else data))"

definition applyModifications :: "int \<Rightarrow> int \<Rightarrow> VoxelBuffer \<Rightarrow> Overlay \<Rightarrow> VoxelBuffer" where
  "applyModifications cx cz data modifiedBlocks = fold (applyModification cx cz) modifiedBlocks data"

text \<open>The state of one generation: the buffer, the two per-column tables, and the random draws.\<close>

record Gen =
  gdata :: VoxelBuffer
  heights :: "int list"
  biomeMap :: "nat list"
  random :: Random

definition put :: "int \<Rightarrow> BlockType \<Rightarrow> Gen \<Rightarrow> Gen" where
  "put i v st = st\<lparr>gdata := store (gdata st) i v\<rparr>"

text \<open>\<^verbatim>\<open>if (d[idx] === BlockType.AIR) d[idx] = l\<close>\<close>

definition putIfAir :: "int \<Rightarrow> BlockType \<Rightarrow> Gen \<Rightarrow> Gen" where
  "putIfAir i l st = (if gdata st ! nat i = AIR then put i l st else st)"

definition makeTreeLeaf :: "int \<Rightarrow> int \<Rightarrow> int \<Rightarrow> BlockType \<Rightarrow> int \<Rightarrow> int \<Rightarrow> int \<Rightarrow> int \<Rightarrow> int \<Rightarrow> Gen \<Rightarrow> Gen" where
  "makeTreeLeaf x z y l h ly r lx lz st =
    (if \<bar>lx - x\<bar> = r \<and> \<bar>lz - z\<bar> = r then
       (if ly \<noteq> y + h - 2 then st
        else (case mathRandom (random st) of (u, rest) \<Rightarrow>
                if u > 0.5 then st\<lparr>random := rest\<rparr>
                else putIfAir (lx + lz * 16 + ly * 256) l (st\<lparr>random := rest\<rparr>)))
     else putIfAir (lx + lz * 16 + ly * 256) l st)"

definition makeTree :: "int \<Rightarrow> int \<Rightarrow> int \<Rightarrow> BlockType \<Rightarrow> BlockType \<Rightarrow> int \<Rightarrow> Gen \<Rightarrow> Gen" where
  "makeTree x z y t l h st =
    (if y + h + 2 \<ge> CHUNK_HEIGHT \<or> x < 2 \<or> x > 13 \<or> z < 2 \<or> z > 13 then st
     else
       (let st = fold (\<lambda>i. put (x + z * 16 + (y + i) * 256) t) [0 .. h - 1] st
        in fold (\<lambda>ly. let r = (if ly > y + h - 1 then 1 else 2) in
                   fold (\<lambda>lx. fold (makeTreeLeaf x z y l h ly r lx) [z - r .. z + r]) [x - r .. x + r])
                [y + h - 2 .. y + h + 1] st))"

definition spruceLeaf :: "int \<Rightarrow> int \<Rightarrow> int \<Rightarrow> int \<Rightarrow> int \<Rightarrow> int \<Rightarrow> int \<Rightarrow> Gen \<Rightarrow> Gen" where
  "spruceLeaf x z y i r lx lz st =
    (if \<bar>lx - x\<bar> = r \<and> \<bar>lz - z\<bar> = r then st
     else putIfAir (lx + lz * 16 + (y + i) * 256) SPRUCE_LEAVES st)"

definition makeSpruceTree :: "int \<Rightarrow> int \<Rightarrow> int \<Rightarrow> Gen \<Rightarrow> Gen" where
  "makeSpruceTree x z y st =
    (if y + 8 \<ge> 256 \<or> x < 3 \<or> x > 12 \<or> z < 3 \<or> z > 12 then st
     else
       (let st = fold (\<lambda>i. put (x + z * 16 + (y + i) * 256) SPRUCE_LOG) [0 .. 5] st;
            st = put (x + z * 16 + (y + 6) * 256) SPRUCE_LEAVES st
        in fold (\<lambda>i. let r = (if i smod 2 = 0 then 2 else 1) in
                   fold (\<lambda>lx. fold (spruceLeaf x z y i r lx) [z - r .. z + r]) [x - r .. x + r])
                [2 .. 5] st))"

definition acaciaLeaf :: "int \<Rightarrow> int \<Rightarrow> int \<Rightarrow> int \<Rightarrow> int \<Rightarrow> Gen \<Rightarrow> Gen" where
  "acaciaLeaf x z y lx lz st =
    (if \<bar>lx - x\<bar> = 2 \<and> \<bar>lz - z\<bar> = 2 then st
     else put (lx + lz * 16 + (y + 4) * 256) ACACIA_LEAVES st)"

definition makeAcaciaTree :: "int \<Rightarrow> int \<Rightarrow> int \<Rightarrow> Gen \<Rightarrow> Gen" where
  "makeAcaciaTree x z y st =
    (if y + 6 \<ge> 256 \<or> x < 3 \<or> x > 12 \<or> z < 3 \<or> z > 12 then st
     else
       (let st = fold (\<lambda>i. put (x + z * 16 + (y + i) * 256) ACACIA_LOG) [0 .. 3] st
        in fold (\<lambda>lx. fold (acaciaLeaf x z y lx) [z - 2 .. z + 2]) [x - 2 .. x + 2] st))"

text \<open>The height of a column before flooring, river carving included.\<close>

definition terrainHeightAt :: "ChunkManager \<Rightarrow> WorldType \<Rightarrow> real \<Rightarrow> real \<Rightarrow> real" where
  "terrainHeightAt cm worldType wx wz =
    (let cont = noise2D cm (wx * 0.0006) (wz * 0.0006);
         warpStrength = 20;
         warpX = noise2D cm (wx * 0.004) (wz * 0.004) * warpStrength;
         warpZ = noise2D cm (wx * 0.004 + 1000) (wz * 0.004 + 1000) * warpStrength;
         riverNoise = \<bar>noise2D cm ((wx + warpX) * 0.0008) ((wz + warpZ) * 0.0008)\<bar>;
         noise = noise2D cm (wx * 0.005) (wz * 0.005) + noise2D cm (wx * 0.01) (wz * 0.01) * 0.5;
         terrainHeight =
           (if worldType = Mountains then
              (let t = real_of_int SEA_LEVEL + 40 + (cont * 80) + (noise * 30) in
               if cont > 0 then t + cont ^ 2 * 150 else t)
            else if cont < - 0.4 then
              real_of_int SEA_LEVEL - 5 - (\<bar>cont + 0.4\<bar> * 30)
            else
              (let t = real_of_int SEA_LEVEL + 8 + (cont * 20) + (noise * 10) in
               if cont > 0.3 then
                 (let tt = (cont - 0.3) / 0.7;
                      smoothT = tt * tt * (3 - 2 * tt);
                      t = t + smoothT * 100;
                      n1 = noise2D cm (wx * 0.03) (wz * 0.03);
                      n2 = noise2D cm (wx * 0.06) (wz * 0.06);
                      n3 = noise2D cm (wx * 0.12) (wz * 0.12);
                      bumps = (n1 + n2 * 0.5 + n3 * 0.25)
                  in t + bumps * 25 * smoothT)
               else t))
     in if riverNoise < 0.08 \<and> cont > - 0.3 \<and> cont < 0.2 then
          (let riverDepth = (0.08 - riverNoise) / 0.08;
               riverBed = real_of_int SEA_LEVEL - 2
           in terrainHeight * (1 - riverDepth) + riverBed * riverDepth)
        else terrainHeight)"

definition clampHeight :: "real \<Rightarrow> int" where
  "clampHeight terrainHeight =
    (let h = \<lfloor>terrainHeight\<rfloor>;
         h = (if h < 1 then 1 else h);
         h = (if h \<ge> CHUNK_HEIGHT - 5 then CHUNK_HEIGHT - 6 else h)
     in h)"

text \<open>Biome id, surface block and sub-surface block of a column; the jitter \<open>d\<close> is drawn
  from \<^verbatim>\<open>Math.random()\<close>.\<close>

definition classifyBiome :: "int \<Rightarrow> real \<Rightarrow> real \<Rightarrow> Random \<Rightarrow> (nat \<times> BlockType \<times> BlockType) \<times> Random" where
  "classifyBiome h temp moisture rnd =
    (if h < SEA_LEVEL then ((10, SAND, GRAVEL), rnd)
     else if h > 130 then ((5, SNOW, STONE), rnd)
     else if h > 110 \<and> temp < 0.3 then ((5, SNOW, STONE), rnd)
     else
       (case mathRandom rnd of (u, rest) \<Rightarrow>
         (let d = (u - 0.5) * 0.1 in
          (if temp + d > 0.5 then
             (if moisture + d < - 0.3 then (1, SAND, SANDSTONE)
              else if moisture + d > 0.4 then (3, GRASS, DIRT)
              else (2, GRASS, DIRT))
           else if temp + d < - 0.4 then (5, SNOW, DIRT)
           else
             (if moisture + d > 0.3 then (7, PODZOL, DIRT)
              else if moisture + d < - 0.3 then (0, GRASS, DIRT)
              else if moisture + d > 0.1 then (4, GRASS, DIRT)
              else (6, GRASS, DIRT)),
           rest))))"

definition columnBlock :: "ChunkManager \<Rightarrow> real \<Rightarrow> real \<Rightarrow> int \<Rightarrow> nat \<Rightarrow> BlockType \<Rightarrow> BlockType \<Rightarrow> int \<Rightarrow> BlockType" where
  "columnBlock cm wx wz h biomeId surface sub y =
    (let blockID =
           (if y = 0 then BEDROCK
            else if y < h - 3 then
              (if noise3D cm (wx * 0.08) (real_of_int y * 0.08) (wz * 0.08) > 0.6 then COAL_ORE else STONE)
            else if y < h then sub
            else if y = h then
              (if y \<le> SEA_LEVEL + 1 \<and> biomeId \<noteq> 1 \<and> biomeId \<noteq> 2 \<and> biomeId \<noteq> 10 \<and> biomeId \<noteq> 5 then SAND
               else if biomeId = 1 \<and> y > h - 3 then SAND
               else surface)
            else (if y \<le> SEA_LEVEL then WATER else AIR))
     in if y > 0 \<and> y \<le> h \<and> blockID \<noteq> WATER \<and> blockID \<noteq> BEDROCK \<and> biomeId \<noteq> 10 then
          (let depth = h - y in
           if depth > 5 then
             (let caveRegion = noise2D cm (wx * 0.002 + 5000) (wz * 0.002 + 5000) in
              if caveRegion > 0.2 then
                (let caveNoise = noise3D cm (wx * 0.05) (real_of_int y * 0.05) (wz * 0.05) in
                 if caveNoise > 0.6 then AIR else blockID)
              else blockID)
           else blockID)
        else blockID)"

text \<open>The body of the first column loop.\<close>

definition genColumn :: "ChunkManager \<Rightarrow> WorldType \<Rightarrow> int \<Rightarrow> int \<Rightarrow> int \<Rightarrow> int \<Rightarrow> Gen \<Rightarrow> Gen" where
  "genColumn cm worldType cx cz x z st =
    (let offset = seedOffset cm;
         wx = real_of_int (cx * CHUNK_SIZE + x) + offset;
         wz = real_of_int (cz * CHUNK_SIZE + z) + offset;
         temp = noise2D cm (wx * 0.0008 + 100) (wz * 0.0008 + 100);
         moisture = noise2D cm (wx * 0.0008 + 500) (wz * 0.0008 + 500);
         h = clampHeight (terrainHeightAt cm worldType wx wz)
     in case classifyBiome h temp moisture (random st) of ((biomeId, surface, sub), rest) \<Rightarrow>
        (let st = st\<lparr>heights := (heights st)[nat (x + z * CHUNK_SIZE) := h],
                     biomeMap := (biomeMap st)[nat (x + z * CHUNK_SIZE) := biomeId],
                     random := rest\<rparr>
         in fold (\<lambda>y. put (x + z * CHUNK_SIZE + y * 256) (columnBlock cm wx wz h biomeId surface sub y))
                 [0 .. CHUNK_HEIGHT - 1] st))"

text \<open>The body of the decoration loop.\<close>

definition decorateColumn :: "real \<Rightarrow> int \<Rightarrow> int \<Rightarrow> int \<Rightarrow> int \<Rightarrow> Gen \<Rightarrow> Gen" where
  "decorateColumn seed cx cz x z st =
    (let h = heights st ! nat (x + z * CHUNK_SIZE);
         groundIdx = x + z * CHUNK_SIZE + h * 256;
         ground = gdata st ! nat groundIdx
     in if ground = AIR then st
        else
          (let bid = biomeMap st ! nat (x + z * CHUNK_SIZE);
               top = h + 1
           in if top < CHUNK_HEIGHT \<and> top > SEA_LEVEL then
                (let idx = x + z * CHUNK_SIZE + top * 256;
                     r = rand (real_of_int (cx * 16 + x)) (real_of_int (cz * 16 + z)) seed;
                     isSand = (ground = SAND \<or> ground = RED_SAND)
                 in if bid = 1 \<and> r < 0.005 \<and> isSand then put idx CACTUS st
                    else if \<not> isSand then
                      (if bid = 3 then
                         (if r < 0.06 then makeTree x z top JUNGLE_LOG JUNGLE_LEAVES 12 st
                          else if r < 0.25 then put idx TALL_GRASS st else st)
                       else if bid = 2 then
                         (if r < 0.005 then makeAcaciaTree x z top st
                          else if r < 0.15 then put idx TALL_GRASS st else st)
                       else if bid = 6 then
                         (if r < 0.015 then makeTree x z top BIRCH_LOG BIRCH_LEAVES 5 st
                          else if r < 0.05 then put idx TALL_GRASS st else st)
                       else if bid = 4 then
                         (if r < 0.015 then makeTree x z top WOOD LEAVES 5 st
                          else if r < 0.08 then put idx TALL_GRASS st else st)
                       else if bid = 7 then
                         (if r < 0.04 then makeTree x z top SPRUCE_LOG LEAVES 6 st else st)
                       else if bid = 5 \<and> r < 0.005 then makeSpruceTree x z top st
                       else if bid = 0 \<and> r < 0.001 then makeTree x z top WOOD LEAVES 5 st
                       else st)
                    else st)
              else st))"

definition flatBlock :: "int \<Rightarrow> BlockType" where
  "flatBlock y = (if y = 0 then BEDROCK else if y < 4 then DIRT else if y = 4 then GRASS else AIR)"

definition flatData :: "VoxelBuffer \<Rightarrow> VoxelBuffer" where
  "flatData data =
    fold (\<lambda>x. fold (\<lambda>z. fold (\<lambda>y d. store d (x + z * CHUNK_SIZE + y * 256) (flatBlock y))
                              [0 .. CHUNK_HEIGHT - 1])
                    [0 .. CHUNK_SIZE - 1])
         [0 .. CHUNK_SIZE - 1] data"

text \<open>\<^verbatim>\<open>generateChunkData\<close> returns the buffer; the model also returns what is left of the
  random draws.\<close>

definition generateChunkData ::
  "ChunkManager \<Rightarrow> int \<Rightarrow> int \<Rightarrow> real \<Rightarrow> WorldType \<Rightarrow> Overlay \<Rightarrow> Random \<Rightarrow> VoxelBuffer \<times> Random" where
  "generateChunkData cm cx cz seed worldType modifiedBlocks rnd =
    (let data = replicate (nat (CHUNK_SIZE * CHUNK_SIZE * CHUNK_HEIGHT)) 0 in
     if worldType = Flat then
       (applyModifications cx cz (flatData data) modifiedBlocks, rnd)
     else
       (let st = \<lparr>gdata = data,
                  heights = replicate (nat (CHUNK_SIZE * CHUNK_SIZE)) 0,
                  biomeMap = replicate (nat (CHUNK_SIZE * CHUNK_SIZE)) 0,
                  random = rnd\<rparr>;
            st = fold (\<lambda>x. fold (genColumn cm worldType cx cz x) [0 .. CHUNK_SIZE - 1])
                      [0 .. CHUNK_SIZE - 1] st;
            st = fold (\<lambda>x. fold (decorateColumn seed cx cz x) [0 .. CHUNK_SIZE - 1])
                      [0 .. CHUNK_SIZE - 1] st
        in (applyModifications cx cz (gdata st) modifiedBlocks, random st)))"


section \<open>The world engine (Engine.ts)\<close>

record Chunk =
  data :: VoxelBuffer
  mesh :: "Mesh option"

datatype GameMode = Survival | Creative

record ItemStack =
  itemId :: BlockType
  count :: int

record GameSettings =
  fov :: real
  renderDistance :: int
  sensitivity :: real
  smoothLighting :: bool
  shadows :: bool

text \<open>A dropped item: its type, position and velocity (the two horizontal components are
  drawn from \<^verbatim>\<open>Math.random()\<close>); the time stamps are not modelled.\<close>

record DroppedItem =
  dropType :: BlockType
  dropPos :: vec3
  velocity :: vec3

text \<open>What the ray caster reports: the hit point and the normal of the hit face.\<close>

record Hit =
  point :: vec3
  normal :: vec3

text \<open>
  The fields of \<^verbatim>\<open>GameEngine\<close> that the world logic reads or writes. The chunk store is the
  \<^verbatim>\<open>Map\<close> keyed by \<^verbatim>\<open>`${cx},${cz}`\<close>, in insertion order; \<open>randomDraws\<close> holds the
  future results of \<^verbatim>\<open>Math.random()\<close>. Scene graph, camera, sky and callbacks are left out.
\<close>

record GameEngine =
  chunkManager :: ChunkManager
  chunks :: "((int \<times> int) \<times> Chunk) list"
  modifiedBlocks :: Overlay
  playerPos :: vec3
  isMining :: bool
  miningBlock :: "(int \<times> int \<times> int) option"
  miningProgress :: real
  breakingMeshVisible :: bool
  droppedItems :: "DroppedItem list"
  fluidQueue :: "(int \<times> int \<times> int) list"
  fluidQueueSet :: "(int \<times> int \<times> int) set"
  seed :: real
  worldType :: WorldType
  settings :: GameSettings
  inventory :: "ItemStack option list"
  selectedSlot :: nat
  gameMode :: GameMode
  randomDraws :: Random

definition chunkCoord :: "int \<Rightarrow> int" where
  "chunkCoord x = \<lfloor>real_of_int x / real_of_int CHUNK_SIZE\<rfloor>"

definition localCoord :: "int \<Rightarrow> int" where
  "localCoord x = (x smod CHUNK_SIZE + CHUNK_SIZE) smod CHUNK_SIZE"

definition getBlock :: "GameEngine \<Rightarrow> int \<Rightarrow> int \<Rightarrow> int \<Rightarrow> BlockType" where
  "getBlock s x y z =
    (let cx = chunkCoord x; cz = chunkCoord z in
     case map_of (chunks s) (cx, cz) of
       None \<Rightarrow> AIR
     | Some chunk \<Rightarrow>
        if y < 0 \<or> y \<ge> CHUNK_HEIGHT then AIR
        else (let lx = localCoord x; lz = localCoord z
              in data chunk ! nat (lx + lz * CHUNK_SIZE + y * 256)))"

definition regenerateChunk :: "int \<Rightarrow> int \<Rightarrow> GameEngine \<Rightarrow> GameEngine" where
  "regenerateChunk cx cz s =
    (case map_of (chunks s) (cx, cz) of
       None \<Rightarrow> s
     | Some chunk \<Rightarrow>
        s\<lparr>chunks := AList.update (cx, cz)
             (chunk\<lparr>mesh := Some (generateChunkMesh (data chunk) (smoothLighting (settings s))
                                    (getBlock s) cx cz)\<rparr>)
             (chunks s)\<rparr>)"

definition setBlock :: "GameEngine \<Rightarrow> int \<Rightarrow> int \<Rightarrow> int \<Rightarrow> BlockType \<Rightarrow> GameEngine" where
  "setBlock s x y z b =
    (let cx = chunkCoord x; cz = chunkCoord z in
     case map_of (chunks s) (cx, cz) of
       None \<Rightarrow> s
     | Some chunk \<Rightarrow>
        (let lx = localCoord x; lz = localCoord z;
             s = s\<lparr>chunks := AList.update (cx, cz)
                     (chunk\<lparr>data := store (data chunk) (lx + lz * CHUNK_SIZE + y * 256) b\<rparr>) (chunks s)\<rparr>;
             s = s\<lparr>modifiedBlocks := AList.update (x, y, z) b (modifiedBlocks s)\<rparr>;
             s = regenerateChunk cx cz s;
             s = (if lx = 0 then regenerateChunk (cx - 1) cz s else s);
             s = (if lx = CHUNK_SIZE - 1 then regenerateChunk (cx + 1) cz s else s);
             s = (if lz = 0 then regenerateChunk cx (cz - 1) s else s);
             s = (if lz = CHUNK_SIZE - 1 then regenerateChunk cx (cz + 1) s else s)
         in s))"

subsection \<open>Streaming\<close>

definition loadChunk :: "int \<Rightarrow> int \<Rightarrow> GameEngine \<Rightarrow> GameEngine" where
  "loadChunk cx cz s =
    (if map_of (chunks s) (cx, cz) \<noteq> None then s
     else
       (case generateChunkData (chunkManager s) cx cz (seed s) (worldType s) (modifiedBlocks s)
               (randomDraws s) of
          (d, rest) \<Rightarrow>
            (let m = generateChunkMesh d (smoothLighting (settings s)) (getBlock s) cx cz
             in s\<lparr>chunks := AList.update (cx, cz) \<lparr>data = d, mesh = Some m\<rparr> (chunks s),
                  randomDraws := rest\<rparr>)))"

definition tooFar :: "int \<Rightarrow> int \<Rightarrow> int \<Rightarrow> int \<times> int \<Rightarrow> bool" where
  "tooFar pcx pcz dst key = (case key of (cx, cz) \<Rightarrow> \<bar>cx - pcx\<bar> > dst + 2 \<or> \<bar>cz - pcz\<bar> > dst + 2)"

definition evictChunk :: "int \<Rightarrow> int \<Rightarrow> int \<Rightarrow> (int \<times> int) \<times> Chunk \<Rightarrow> GameEngine \<Rightarrow> GameEngine" where
  "evictChunk pcx pcz dst entry s =
    (if tooFar pcx pcz dst (fst entry) then s\<lparr>chunks := AList.delete (fst entry) (chunks s)\<rparr> else s)"

definition updateWorldChunks :: "GameEngine \<Rightarrow> GameEngine" where
  "updateWorldChunks s =
    (case playerPos s of (px, py, pz) \<Rightarrow>
      (let pcx = \<lfloor>px / real_of_int CHUNK_SIZE\<rfloor>;
           pcz = \<lfloor>pz / real_of_int CHUNK_SIZE\<rfloor>;
           dst = renderDistance (settings s);
           s = fold (\<lambda>x. fold (\<lambda>z. loadChunk (pcx + x) (pcz + z)) [- dst .. dst]) [- dst .. dst] s
       in fold (evictChunk pcx pcz dst) (chunks s) s))"

subsection \<open>Fluids\<close>

definition scheduleFluidUpdate :: "GameEngine \<Rightarrow> int \<Rightarrow> int \<Rightarrow> int \<Rightarrow> GameEngine" where
  "scheduleFluidUpdate s x y z =
    (if (x, y, z) \<notin> fluidQueueSet s then
       s\<lparr>fluidQueueSet := insert (x, y, z) (fluidQueueSet s), fluidQueue := fluidQueue s @ [(x, y, z)]\<rparr>
     else s)"

text \<open>\<^verbatim>\<open>BLOCK_PROPS[b]?.cross\<close>, \<^verbatim>\<open>BLOCK_PROPS[b]?.fluid\<close> as conditions, and
  \<^verbatim>\<open>BLOCK_PROPS[b]?.fluid === undefined\<close>.\<close>

definition propCross :: "BlockType \<Rightarrow> bool" where
  "propCross b = (case BLOCK_PROPS b of None \<Rightarrow> False | Some p \<Rightarrow> truthy (cross p))"

definition propFluid :: "BlockType \<Rightarrow> bool" where
  "propFluid b = (case BLOCK_PROPS b of None \<Rightarrow> False | Some p \<Rightarrow> truthy (fluid p))"

definition propFluidUndefined :: "BlockType \<Rightarrow> bool" where
  "propFluidUndefined b = (case BLOCK_PROPS b of None \<Rightarrow> True | Some p \<Rightarrow> fluid p = None)"

definition flowDown :: "int \<Rightarrow> int \<Rightarrow> int \<Rightarrow> GameEngine \<Rightarrow> GameEngine" where
  "flowDown x y z s =
    (if y > 0 then
       (let bBelow = getBlock s x (y - 1) z in
        if bBelow = AIR \<or> (bBelow \<noteq> WATER \<and> bBelow \<noteq> FLOWING_WATER \<and> \<not> propCross bBelow
                            \<and> bBelow \<noteq> TORCH \<and> bBelow \<noteq> BEDROCK) then
          (if bBelow = AIR \<or> propFluidUndefined bBelow then
             scheduleFluidUpdate (setBlock s x (y - 1) z FLOWING_WATER) x (y - 1) z
           else s)
        else s)
     else s)"

definition flowSide :: "int \<Rightarrow> int \<Rightarrow> int \<Rightarrow> int \<times> int \<Rightarrow> GameEngine \<Rightarrow> GameEngine" where
  "flowSide x y z n s =
    (case n of (dx, dz) \<Rightarrow>
      (let nx = x + dx; nz = z + dz; nb = getBlock s nx y nz in
       if nb = AIR \<or> propCross nb then
         scheduleFluidUpdate (setBlock s nx y nz FLOWING_WATER) nx y nz
       else s))"

definition flowSideways :: "int \<Rightarrow> int \<Rightarrow> int \<Rightarrow> GameEngine \<Rightarrow> GameEngine" where
  "flowSideways x y z s =
    (let neighbors = [(1, 0), (-1, 0), (0, 1), (0, -1)];
         bBelow = getBlock s x (y - 1) z;
         isSolidBelow = (bBelow \<noteq> AIR \<and> bBelow \<noteq> WATER \<and> bBelow \<noteq> FLOWING_WATER \<and> \<not> propFluid bBelow)
     in if isSolidBelow then fold (flowSide x y z) neighbors s else s)"

text \<open>One turn of the \<^verbatim>\<open>while\<close> loop of \<^verbatim>\<open>processFluids\<close>, on a non-empty queue.\<close>

definition processFluid :: "GameEngine \<Rightarrow> GameEngine" where
  "processFluid s =
    (case fluidQueue s of
       [] \<Rightarrow> s
     | (x, y, z) # rest \<Rightarrow>
        (let s = s\<lparr>fluidQueue := rest, fluidQueueSet := fluidQueueSet s - {(x, y, z)}\<rparr>;
             block = getBlock s x y z
         in if block = WATER \<or> block = FLOWING_WATER then
              (let s = flowDown x y z s in
               if block = WATER then flowSideways x y z s else s)
            else s))"

definition batchSize :: nat where "batchSize = 500"

function processFluidsLoop :: "nat \<Rightarrow> GameEngine \<Rightarrow> GameEngine" where
  "processFluidsLoop processed s =
    (if length (fluidQueue s) > 0 \<and> processed < batchSize
     then processFluidsLoop (processed + 1) (processFluid s) else s)"
  by pat_completeness auto
termination
  by (relation "measure (\<lambda>(processed, s). batchSize - processed)") auto

declare processFluidsLoop.simps [simp del]

definition processFluids :: "GameEngine \<Rightarrow> GameEngine" where
  "processFluids s = (if length (fluidQueue s) = 0 then s else processFluidsLoop 0 s)"

subsection \<open>Mining\<close>

text \<open>\<^verbatim>\<open>BLOCK_PROPS[b] || ({} as BlockProp)\<close>: the empty object has every field absent.\<close>

definition propsOrEmpty :: "BlockType \<Rightarrow> BlockProp" where
  "propsOrEmpty b = (case BLOCK_PROPS b of None \<Rightarrow> mkProp [] 0 | Some p \<Rightarrow> p)"

definition hitBlock :: "Hit \<Rightarrow> int \<times> int \<times> int" where
  "hitBlock hit =
    (case point hit of (px, py, pz) \<Rightarrow> case normal hit of (nx, ny, nz) \<Rightarrow>
      (\<lfloor>px - nx * 0.5\<rfloor>, \<lfloor>py - ny * 0.5\<rfloor>, \<lfloor>pz - nz * 0.5\<rfloor>))"

definition spawnDrop :: "BlockType \<Rightarrow> vec3 \<Rightarrow> GameEngine \<Rightarrow> GameEngine" where
  "spawnDrop t p s =
    (case mathRandom (randomDraws s) of (u1, r1) \<Rightarrow>
     case mathRandom r1 of (u2, r2) \<Rightarrow>
       s\<lparr>droppedItems := droppedItems s @
            [\<lparr>dropType = t, dropPos = p, velocity = ((u1 - 0.5) * 3, 4, (u2 - 0.5) * 3)\<rparr>],
         randomDraws := r2\<rparr>)"

definition breakBlock :: "GameEngine \<Rightarrow> int \<Rightarrow> int \<Rightarrow> int \<Rightarrow> GameEngine" where
  "breakBlock s x y z =
    (let type = getBlock s x y z;
         s = setBlock s x y z AIR;
         s = scheduleFluidUpdate s x (y + 1) z;
         s = scheduleFluidUpdate s (x + 1) y z;
         s = scheduleFluidUpdate s (x - 1) y z;
         s = scheduleFluidUpdate s x y (z + 1);
         s = scheduleFluidUpdate s x y (z - 1)
     in if gameMode s = Survival \<and> type \<noteq> AIR then
          (let dropT = type;
               dropT = (if type = STONE then COBBLESTONE else dropT);
               dropT = (if type = COAL_ORE then COAL else dropT);
               dropT = (if type = GRASS then DIRT else dropT)
           in if type \<noteq> WATER \<and> type \<noteq> FLOWING_WATER then
                spawnDrop dropT (real_of_int x + 0.5, real_of_int y + 0.5, real_of_int z + 0.5) s
              else s)
        else s)"

text \<open>The ray caster of the renderer is a parameter: what it hits in a given state.\<close>

type_synonym Raycast = "GameEngine \<Rightarrow> Hit option"

definition startMining :: "Raycast \<Rightarrow> GameEngine \<Rightarrow> GameEngine" where
  "startMining raycast s =
    (case raycast s of
       None \<Rightarrow> s
     | Some hit \<Rightarrow>
        (case hitBlock hit of (bx, by, bz) \<Rightarrow>
          (let b = getBlock s bx by bz in
           if b \<noteq> AIR \<and> b \<noteq> BEDROCK then
             (let props = propsOrEmpty b in
              if hardness props = Some (- 1) \<and> gameMode s \<noteq> Creative then s
              else
                (let s = s\<lparr>isMining := True, miningBlock := Some (bx, by, bz), miningProgress := 0,
                           breakingMeshVisible := True\<rparr>
                 in if gameMode s = Creative then
                      (breakBlock s bx by bz)\<lparr>isMining := False, breakingMeshVisible := False\<rparr>
                    else s))
           else s)))"

text \<open>The speed multiplier computed by \<^verbatim>\<open>updateMining\<close> (``Efficiency Logic'').\<close>

definition miningSpeed :: "BlockProp \<Rightarrow> ItemStack option \<Rightarrow> real" where
  "miningSpeed blockProps heldItem =
    (case heldItem of
       None \<Rightarrow> 1.0
     | Some item \<Rightarrow>
        (let toolProps = propsOrEmpty (itemId item) in
         if toolType blockProps \<noteq> None \<and> toolType toolProps = toolType blockProps then
           (if truthyNum (efficiency toolProps) then the (efficiency toolProps) else 1.0)
         else 1.0))"

definition heldItemOf :: "GameEngine \<Rightarrow> ItemStack option" where
  "heldItemOf s = (if selectedSlot s < length (inventory s) then inventory s ! selectedSlot s else None)"

definition updateMining :: "Raycast \<Rightarrow> real \<Rightarrow> GameEngine \<Rightarrow> GameEngine" where
  "updateMining raycast dt s =
    (if \<not> isMining s \<or> miningBlock s = None then s
     else
       (case raycast s of
          None \<Rightarrow> s\<lparr>isMining := False, breakingMeshVisible := False\<rparr>
        | Some hit \<Rightarrow>
           (case hitBlock hit of (bx, by, bz) \<Rightarrow>
             (let s = (if miningBlock s \<noteq> Some (bx, by, bz)
                       then s\<lparr>miningBlock := Some (bx, by, bz), miningProgress := 0\<rparr> else s);
                  blockType = getBlock s bx by bz
              in if blockType = AIR then s\<lparr>isMining := False, breakingMeshVisible := False\<rparr>
                 else
                   (let blockProps = propsOrEmpty blockType;
                        hard = (case hardness blockProps of None \<Rightarrow> 1 | Some v \<Rightarrow> v)
                    in if hard < 0 \<and> gameMode s \<noteq> Creative then
                         s\<lparr>isMining := False, breakingMeshVisible := False\<rparr>
                       else
                         (let speed = miningSpeed blockProps (heldItemOf s);
                              s = s\<lparr>miningProgress := miningProgress s + dt * speed\<rparr>
                          in if miningProgress s \<ge> hard then
                               startMining raycast
                                 ((breakBlock s bx by bz)\<lparr>miningProgress := 0, breakingMeshVisible := False\<rparr>)
                             else s))))))"


text \<open>The field values set by the constructor before its first streaming pass, and the
  constructor itself.\<close>

definition newEngine ::
  "ChunkManager \<Rightarrow> real \<Rightarrow> WorldType \<Rightarrow> GameMode \<Rightarrow> GameSettings \<Rightarrow> Overlay \<Rightarrow> vec3 \<Rightarrow>
   ItemStack option list \<Rightarrow> Random \<Rightarrow> GameEngine" where
  "newEngine cm sd wt mode st modified p slots rnd =
    \<lparr>chunkManager = cm, chunks = [], modifiedBlocks = modified, playerPos = p, isMining = False,
     miningBlock = None, miningProgress = 0, breakingMeshVisible = False, droppedItems = [],
     fluidQueue = [], fluidQueueSet = {}, seed = sd, worldType = wt, settings = st,
     inventory = slots, selectedSlot = 0, gameMode = mode, randomDraws = rnd\<rparr>"

definition constructEngine ::
  "ChunkManager \<Rightarrow> real \<Rightarrow> WorldType \<Rightarrow> GameMode \<Rightarrow> GameSettings \<Rightarrow> Overlay \<Rightarrow> vec3 \<Rightarrow>
   ItemStack option list \<Rightarrow> Random \<Rightarrow> GameEngine" where
  "constructEngine cm sd wt mode st modified p slots rnd =
    updateWorldChunks (newEngine cm sd wt mode st modified p slots rnd)"

definition INITIAL_SETTINGS :: GameSettings where
  "INITIAL_SETTINGS = \<lparr>fov = 75, renderDistance = 6, sensitivity = 0.003, smoothLighting = True,
     shadows = True\<rparr>"

section \<open>Notions used to state the properties\<close>

text \<open>The voxel buffer of the resident chunk with a given key, and the cell index of a world
  coordinate inside its chunk.\<close>

definition dataAt :: "GameEngine \<Rightarrow> int \<times> int \<Rightarrow> VoxelBuffer option" where
  "dataAt s k = map_option data (map_of (chunks s) k)"

definition cellIndex :: "int \<Rightarrow> int \<Rightarrow> int \<Rightarrow> int" where
  "cellIndex x y z = x mod 16 + (z mod 16) * 16 + y * 256"

text \<open>Every resident voxel buffer has its \<open>16 * 16 * 256\<close> cells.\<close>

definition wfChunks :: "GameEngine \<Rightarrow> bool" where
  "wfChunks s = (\<forall>k d. dataAt s k = Some d \<longrightarrow> length d = 65536)"

text \<open>The fluid queue holds no coordinate twice and the companion set holds exactly the
  queued coordinates.\<close>

definition fluidInv :: "GameEngine \<Rightarrow> bool" where
  "fluidInv s = (distinct (fluidQueue s) \<and> fluidQueueSet s = set (fluidQueue s))"

text \<open>What a step may do to the queue: keep the invariant and only append.\<close>

definition queueStep :: "(GameEngine \<Rightarrow> GameEngine) \<Rightarrow> bool" where
  "queueStep f = (\<forall>s. fluidInv s \<longrightarrow> fluidInv (f s) \<and> (\<exists>ys. fluidQueue (f s) = fluidQueue s @ ys))"

text \<open>Sample worlds: a chunk manager with constant noise, and a Survival engine in a Flat
  world whose chunk \<open>(0, 0)\<close> is resident.\<close>

definition constNoise :: ChunkManager where
  "constNoise = \<lparr>noise2D = (\<lambda>x y. 1 / 2), noise3D = (\<lambda>x y z. 0), seedOffset = 0\<rparr>"

definition flatChunk :: VoxelBuffer where
  "flatChunk = fst (generateChunkData constNoise 0 0 0 Flat [] (\<lambda>n. 0))"

definition flatWorld :: GameEngine where
  "flatWorld = (newEngine constNoise 0 Flat Survival INITIAL_SETTINGS [] (0, 80, 0) (replicate 36 None) (\<lambda>n. 0))
     \<lparr>chunks := [((0, 0), \<lparr>data = flatChunk, mesh = None\<rparr>)]\<rparr>"

text \<open>The player places a water source on the grass at \<open>(0, 5, 0)\<close>: what
  \<^verbatim>\<open>handleInteraction\<close> does for a held water block.\<close>

definition waterPlaced :: GameEngine where
  "waterPlaced = scheduleFluidUpdate (setBlock flatWorld 0 5 0 WATER) 0 5 0"

text \<open>The cells of a chunk as \<open>(x, z, y)\<close>, in the order of the three nested loops.\<close>

definition cells :: "(int \<times> int \<times> int) list" where
  "cells = List.product [0 .. 15] (List.product [0 .. 15] [0 .. 255])"

text \<open>The state reached while the water placed at \<open>(0, 5, 0)\<close> works its way down: the
  cells \<open>(0, y, 0)\<close> for \<open>lo \<le> y < 5\<close> have turned into flowing water, and \<open>(0, lo, 0)\<close>
  is the only queued coordinate.\<close>

definition drilled :: "int \<Rightarrow> GameEngine \<Rightarrow> bool" where
  "drilled lo s \<longleftrightarrow>
     wfChunks s \<and> dataAt s (0, 0) \<noteq> None \<and> fluidQueue s = [(0, lo, 0)] \<and> fluidQueueSet s = {(0, lo, 0)} \<and>
     (\<forall>x y z. getBlock s x y z =
        (if x = 0 \<and> z = 0 \<and> y = 5 then WATER
         else if x = 0 \<and> z = 0 \<and> lo \<le> y \<and> y < 5 then FLOWING_WATER
         else getBlock flatWorld x y z))"

text \<open>Sample mining situations in the Flat world: the cross-hair rests on the top face of the
  grass block at \<open>(0, 4, 0)\<close>, or on a face of the bedrock at \<open>(0, 0, 0)\<close>, while the left
  button is held; \<open>holding\<close> puts one item into the selected slot.\<close>

definition lookingAtGrass :: Raycast where
  "lookingAtGrass s = Some \<lparr>point = (1 / 2, 5, 1 / 2), normal = (0, 1, 0)\<rparr>"

definition lookingAtBedrock :: Raycast where
  "lookingAtBedrock s = Some \<lparr>point = (1, 1 / 2, 1 / 2), normal = (1, 0, 0)\<rparr>"

definition holding :: "BlockType \<Rightarrow> GameEngine \<Rightarrow> GameEngine" where
  "holding tool s = s\<lparr>inventory := (inventory s)[selectedSlot s := Some \<lparr>itemId = tool, count = 1\<rparr>]\<rparr>"

definition miningAt :: "int \<times> int \<times> int \<Rightarrow> GameEngine \<Rightarrow> GameEngine" where
  "miningAt c s = s\<lparr>isMining := True, miningBlock := Some c, breakingMeshVisible := True\<rparr>"

text \<open>The coordinates of the resident chunks.\<close>

definition residentKeys :: "GameEngine \<Rightarrow> (int \<times> int) set" where
  "residentKeys s = fst ` set (chunks s)"

text \<open>An overlay entry lies in chunk \<open>(cx, cz)\<close> and inside the vertical bound.\<close>

definition inChunk :: "int \<Rightarrow> int \<Rightarrow> (int \<times> int \<times> int) \<times> BlockType \<Rightarrow> bool" where
  "inChunk cx cz entry = (case entry of ((gx, gy, gz), val) \<Rightarrow>
     cx * 16 \<le> gx \<and> gx < (cx + 1) * 16 \<and> cz * 16 \<le> gz \<and> gz < (cz + 1) * 16 \<and> 0 \<le> gy \<and> gy < 256)"

definition entryIndex :: "(int \<times> int \<times> int) \<times> BlockType \<Rightarrow> int" where
  "entryIndex entry = (case entry of ((gx, gy, gz), val) \<Rightarrow> cellIndex gx gy gz)"

text \<open>A sample overlay: a diamond block in chunk \<open>(1, - 1)\<close> and an edit of the bedrock at the
  origin.\<close>

definition sampleOverlay :: Overlay where
  "sampleOverlay = [((17, 0, - 3), DIAMOND_BLOCK), ((0, 0, 0), AIR)]"





text \<open>A step of the generation keeps a property of the generation state.\<close>

definition keeps :: "(Gen \<Rightarrow> bool) \<Rightarrow> (Gen \<Rightarrow> Gen) \<Rightarrow> bool" where
  "keeps P f = (\<forall>st. P st \<longrightarrow> P (f st))"

text \<open>The cell \<open>(0, 0, 112)\<close>, at index \<open>112 * 256\<close>, holds the block \<open>v\<close>, the height recorded for column \<open>(0, 0)\<close> is
  112, and every future random draw is \<open>c\<close>.\<close>

definition surfaceIs :: "BlockType \<Rightarrow> real \<Rightarrow> Gen \<Rightarrow> bool" where
  "surfaceIs v c st = (gdata st ! 28672 = v \<and> heights st ! 0 = 112 \<and> random st = (\<lambda>n. c))"

section \<open>Buffers and indices\<close>

declare upto_rec_numeral [simp del]

lemma length_store [simp]: "length (store d i v) = length d"
  by (simp add: store_def)

lemma store_out_of_range: "i < 0 \<or> i \<ge> int (length d) \<Longrightarrow> store d i v = d"
  by (auto simp: store_def)

lemma nth_store:
  "0 \<le> j \<Longrightarrow> store d i v ! nat j = (if i = j \<and> j < int (length d) then v mod 256 else d ! nat j)"
  by (auto simp: store_def nth_list_update)

lemma smod_nonneg: "0 \<le> (a::int) \<Longrightarrow> a smod 16 = a mod 16"
  by (simp add: signed_modulo_int_def sgn_if)

lemma smod_neg: "(a::int) < 0 \<Longrightarrow> a smod 16 = - ((- a) mod 16)"
  by (simp add: signed_modulo_int_def sgn_if)

lemma localCoord_eq: "localCoord x = x mod 16"
proof (cases "0 \<le> x")
  case True
  then show ?thesis
    unfolding localCoord_def CHUNK_SIZE_def by (simp add: smod_nonneg)
next
  case False
  then have neg: "x < 0" by simp
  have r: "0 \<le> - ((- x) mod 16) + 16" 
    using pos_mod_bound[of 16 "-x"] by linarith
  have "(- ((- x) mod 16) + 16) mod 16 = x mod 16"
    by (metis add.commute add.inverse_inverse mod_add_self1 mod_minus_eq)
  then show ?thesis
    unfolding localCoord_def CHUNK_SIZE_def using neg r by (simp add: smod_neg smod_nonneg)
qed

lemma chunkCoord_eq: "chunkCoord x = x div 16"
  unfolding chunkCoord_def CHUNK_SIZE_def
  using floor_divide_of_int_eq[of x 16, where ?'a = real] by simp

lemma cell_index_mod:
  assumes "0 \<le> x" "x \<le> 15" "0 \<le> z" "z \<le> (15::int)"
  shows "(x + z * 16 + y * 256) mod 16 = x" "(x + z * 16 + y * 256) div 16 mod 16 = z"
    "(x + z * 16 + y * 256) div 256 = y"
proof -
  have e: "x + z * 16 + y * 256 = x + (z + y * 16) * 16" by simp
  have "(x + (z + y * 16) * 16) mod 16 = x mod 16" by (rule mod_mult_self1)
  then show "(x + z * 16 + y * 256) mod 16 = x"
    unfolding e using assms by simp
  have "(x + (z + y * 16) * 16) div 16 = (z + y * 16) + x div 16"
    by (rule div_mult_self1) simp
  then have d: "(x + z * 16 + y * 256) div 16 = z + y * 16"
    unfolding e using assms by simp
  have "(z + y * 16) mod 16 = z mod 16" by (rule mod_mult_self1)
  then show "(x + z * 16 + y * 256) div 16 mod 16 = z"
    unfolding d using assms by simp
  have "((x + z * 16) + y * 256) div 256 = y + (x + z * 16) div 256"
    by (rule div_mult_self1) simp
  moreover have "(x + z * 16) div 256 = 0" using assms by simp
  ultimately show "(x + z * 16 + y * 256) div 256 = y" by simp
qed

lemma cell_index_inj:
  assumes "0 \<le> x" "x \<le> 15" "0 \<le> z" "z \<le> 15" "0 \<le> x'" "x' \<le> 15" "0 \<le> z'" "z' \<le> 15"
    "x + z * 16 + y * 256 = x' + z' * 16 + y' * 256"
  shows "x = x' \<and> z = z' \<and> (y::int) = y'"
  using cell_index_mod[of x z y] cell_index_mod[of x' z' y'] assms by metis

lemma fold_product:
  "fold (\<lambda>x. fold (g x) ys) xs = fold (\<lambda>(x, y). g x y) (List.product xs ys)"
proof (induction xs)
  case Nil
  then show ?case by simp
next
  case (Cons x xs)
  have "fold (\<lambda>(x, y). g x y) (map (Pair x) ys) = fold (g x) ys"
    by (simp add: fold_map comp_def)
  then show ?case using Cons by simp
qed

lemma length_fold_store [simp]:
  "length (fold (\<lambda>a d. store d (ix a) (val a)) as d) = length d"
  by (induction as arbitrary: d) simp_all

lemma fold_store_other:
  "0 \<le> j \<Longrightarrow> j \<notin> ix ` set as \<Longrightarrow> fold (\<lambda>a d. store d (ix a) (val a)) as d ! nat j = d ! nat j"
  by (induction as arbitrary: d) (auto simp: nth_store)

lemma fold_store_hit:
  "a0 \<in> set as \<Longrightarrow> inj_on ix (set as) \<Longrightarrow> distinct as \<Longrightarrow> 0 \<le> ix a0 \<Longrightarrow> ix a0 < int (length d) \<Longrightarrow>
   fold (\<lambda>a d. store d (ix a) (val a)) as d ! nat (ix a0) = val a0 mod 256"
proof (induction as arbitrary: d)
  case Nil
  then show ?case by simp
next
  case (Cons a as)
  show ?case
  proof (cases "a = a0")
    case True
    then have "ix a0 \<notin> ix ` set as"
      using Cons.prems by (auto simp: inj_on_def)
    then show ?thesis
      using True Cons.prems by (simp add: fold_store_other nth_store)
  next
    case False
    then show ?thesis using Cons by (auto simp: inj_on_def)
  qed
qed

lemma cells_props:
  "distinct cells" "inj_on (\<lambda>(x, z, y). x + z * 16 + y * (256::int)) (set cells)"
  "(x, z, y) \<in> set cells \<longleftrightarrow> 0 \<le> x \<and> x \<le> 15 \<and> 0 \<le> z \<and> z \<le> 15 \<and> 0 \<le> y \<and> y \<le> 255"
proof -
  show "distinct cells" by (simp add: cells_def distinct_product)
  show "inj_on (\<lambda>(x, z, y). x + z * 16 + y * (256::int)) (set cells)"
    unfolding inj_on_def cells_def
    apply clarsimp
    apply (drule (8) cell_index_inj)
    apply simp
    done
  show "(x, z, y) \<in> set cells \<longleftrightarrow> 0 \<le> x \<and> x \<le> 15 \<and> 0 \<le> z \<and> z \<le> 15 \<and> 0 \<le> y \<and> y \<le> 255"
    by (auto simp: cells_def)
qed

lemma flatData_fold:
  "flatData d = fold (\<lambda>a d. store d (case a of (x, z, y) \<Rightarrow> x + z * 16 + y * 256)
                                     (case a of (x, z, y) \<Rightarrow> flatBlock y)) cells d"
  unfolding flatData_def CHUNK_SIZE_def CHUNK_HEIGHT_def cells_def
  apply (simp only: fold_product)
  apply (simp add: case_prod_unfold)
  done

lemma length_flatData [simp]: "length (flatData d) = length d"
  by (simp add: flatData_fold)

lemma flatData_nth:
  assumes "0 \<le> x" "x \<le> 15" "0 \<le> z" "z \<le> 15" "0 \<le> y" "y \<le> 255" "length d = 65536"
  shows "flatData d ! nat (x + z * 16 + y * 256) = flatBlock y"
proof -
  let ?ix = "\<lambda>(x, z, y). x + z * 16 + y * (256::int)"
  let ?val = "\<lambda>(x::int, z::int, y). flatBlock y"
  have mem: "(x, z, y) \<in> set cells" using assms by (simp add: cells_props)
  have "fold (\<lambda>a d. store d (?ix a) (?val a)) cells d ! nat (?ix (x, z, y)) = ?val (x, z, y) mod 256"
    by (rule fold_store_hit[OF mem cells_props(2) cells_props(1)]) (use assms in auto)
  moreover have "flatBlock y mod 256 = flatBlock y"
    by (simp add: flatBlock_def BlockType_defs)
  ultimately show ?thesis by (simp add: flatData_fold)
qed

section \<open>Reading and writing blocks\<close>

lemma getBlock_dataAt:
  "getBlock s x y z =
    (case dataAt s (x div 16, z div 16) of
       None \<Rightarrow> AIR
     | Some d \<Rightarrow> if y < 0 \<or> y \<ge> 256 then AIR else d ! nat (cellIndex x y z))"
  by (simp add: getBlock_def dataAt_def chunkCoord_eq localCoord_eq cellIndex_def CHUNK_SIZE_def
      CHUNK_HEIGHT_def split: option.splits)

lemma dataAt_regenerateChunk [simp]: "dataAt (regenerateChunk cx cz s) = dataAt s"
  by (rule ext) (auto simp: dataAt_def regenerateChunk_def update_conv' split: option.splits)

lemma regenerateChunk_fields [simp]:
  "modifiedBlocks (regenerateChunk cx cz s) = modifiedBlocks s"
  "fluidQueue (regenerateChunk cx cz s) = fluidQueue s"
  "fluidQueueSet (regenerateChunk cx cz s) = fluidQueueSet s"
  "gameMode (regenerateChunk cx cz s) = gameMode s"
  by (simp_all add: regenerateChunk_def split: option.splits)

lemma dataAt_chunks_update:
  "dataAt (s\<lparr>chunks := AList.update k c (chunks s)\<rparr>) = (dataAt s)(k \<mapsto> data c)"
  by (rule ext) (simp add: dataAt_def update_conv')

lemma dataAt_modifiedBlocks_update [simp]:
  "dataAt (s\<lparr>modifiedBlocks := m\<rparr>) = dataAt s"
  by (rule ext) (simp add: dataAt_def)

lemma dataAt_setBlock:
  "dataAt (setBlock s x y z b) =
    (case dataAt s (x div 16, z div 16) of
       None \<Rightarrow> dataAt s
     | Some d \<Rightarrow> (dataAt s)((x div 16, z div 16) \<mapsto> store d (cellIndex x y z) b))"
proof (cases "map_of (chunks s) (x div 16, z div 16)")
  case None
  then show ?thesis
    by (simp add: setBlock_def dataAt_def chunkCoord_eq)
next
  case (Some c)
  then have d: "dataAt s (x div 16, z div 16) = Some (data c)"
    by (simp add: dataAt_def)
  show ?thesis
    unfolding setBlock_def Let_def chunkCoord_eq localCoord_eq
    by (simp add: Some d dataAt_chunks_update cellIndex_def CHUNK_SIZE_def)
qed

lemma modifiedBlocks_setBlock:
  "modifiedBlocks (setBlock s x y z b) =
    (if dataAt s (x div 16, z div 16) = None then modifiedBlocks s
     else AList.update (x, y, z) b (modifiedBlocks s))"
  by (auto simp: setBlock_def Let_def dataAt_def chunkCoord_eq split: option.splits)

lemma setBlock_fields [simp]:
  "fluidQueue (setBlock s x y z b) = fluidQueue s"
  "fluidQueueSet (setBlock s x y z b) = fluidQueueSet s"
  "gameMode (setBlock s x y z b) = gameMode s"
  by (auto simp: setBlock_def Let_def split: option.splits)

lemma cellIndex_out_of_range:
  "y < 0 \<Longrightarrow> cellIndex x y z < 0" "y \<ge> 256 \<Longrightarrow> cellIndex x y z \<ge> 65536"
proof -
  have "0 \<le> x mod 16" "x mod 16 < 16" "0 \<le> z mod 16" "z mod 16 < 16" by simp_all
  then show "y < 0 \<Longrightarrow> cellIndex x y z < 0" "y \<ge> 256 \<Longrightarrow> cellIndex x y z \<ge> 65536"
    unfolding cellIndex_def by linarith+
qed

text \<open>A write outside the vertical bound leaves every voxel buffer as it is.\<close>

lemma dataAt_setBlock_out_of_range:
  assumes "y < 0 \<or> y \<ge> CHUNK_HEIGHT" "\<forall>k d. dataAt s k = Some d \<longrightarrow> length d = 65536"
  shows "dataAt (setBlock s x y z b) = dataAt s"
proof (cases "dataAt s (x div 16, z div 16)")
  case None
  then show ?thesis by (simp add: dataAt_setBlock)
next
  case (Some d)
  then have len: "length d = 65536" using assms(2) by auto
  have "store d (cellIndex x y z) b = d"
    using cellIndex_out_of_range[of y x z] assms(1) len
    by (intro store_out_of_range) (auto simp: CHUNK_HEIGHT_def)
  then show ?thesis using Some by (auto simp: dataAt_setBlock)
qed

lemma getBlock_out_of_range: "y < 0 \<or> y \<ge> CHUNK_HEIGHT \<Longrightarrow> getBlock s x y z = AIR"
  by (auto simp: getBlock_def Let_def split: option.splits)

section \<open>The sample worlds\<close>

lemma flatChunk_eq: "flatChunk = flatData (replicate 65536 0)"
  by (simp add: flatChunk_def generateChunkData_def applyModifications_def CHUNK_SIZE_def CHUNK_HEIGHT_def)

lemma length_flatChunk [simp]: "length flatChunk = 65536"
  by (simp add: flatChunk_eq)

lemma flatChunk_nth:
  "0 \<le> x \<Longrightarrow> x \<le> 15 \<Longrightarrow> 0 \<le> z \<Longrightarrow> z \<le> 15 \<Longrightarrow> 0 \<le> y \<Longrightarrow> y \<le> 255 \<Longrightarrow>
   flatChunk ! nat (x + z * 16 + y * 256) = flatBlock y"
  by (simp add: flatChunk_eq flatData_nth)

lemma flatWorld_fields [simp]:
  "chunks flatWorld = [((0, 0), \<lparr>data = flatChunk, mesh = None\<rparr>)]"
  "modifiedBlocks flatWorld = []"
  "fluidQueue flatWorld = []"
  "fluidQueueSet flatWorld = {}"
  "gameMode flatWorld = Survival"
  by (simp_all add: flatWorld_def newEngine_def)

lemma dataAt_flatWorld: "dataAt flatWorld k = (if k = (0, 0) then Some flatChunk else None)"
  by (simp add: dataAt_def)

text \<open>
  C4. Reads outside the vertical bound return AIR, but \<^verbatim>\<open>setBlock\<close> has no such guard: with
  chunk \<open>(0, 0)\<close> resident, \<open>setBlock 0 256 0 STONE\<close> leaves every voxel buffer as it is (the
  typed array ignores the write) and still records the write in the modification overlay.
\<close>

theorem setBlock_above_world_enters_overlay:
  "getBlock flatWorld 0 256 0 = AIR \<and>
   modifiedBlocks flatWorld = [] \<and>
   dataAt (setBlock flatWorld 0 256 0 STONE) = dataAt flatWorld \<and>
   modifiedBlocks (setBlock flatWorld 0 256 0 STONE) = [((0, 256, 0), STONE)]"
proof -
  have "dataAt (setBlock flatWorld 0 256 0 STONE) = dataAt flatWorld"
    by (rule dataAt_setBlock_out_of_range) (simp_all add: CHUNK_HEIGHT_def dataAt_flatWorld)
  moreover have "modifiedBlocks (setBlock flatWorld 0 256 0 STONE) = [((0, 256, 0), STONE)]"
    by (simp add: modifiedBlocks_setBlock dataAt_flatWorld)
  moreover have "getBlock flatWorld 0 256 0 = AIR"
    by (simp add: getBlock_out_of_range CHUNK_HEIGHT_def)
  ultimately show ?thesis by simp
qed

section \<open>The fluid queue\<close>

lemma cellIndex_bounds [simp]:
  "0 \<le> cellIndex x y z \<longleftrightarrow> 0 \<le> y" "cellIndex x y z < 65536 \<longleftrightarrow> y < 256"
proof -
  have "0 \<le> x mod 16" "x mod 16 < 16" "0 \<le> z mod 16" "z mod 16 < 16" by simp_all
  then show "0 \<le> cellIndex x y z \<longleftrightarrow> 0 \<le> y" "cellIndex x y z < 65536 \<longleftrightarrow> y < 256"
    unfolding cellIndex_def by linarith+
qed

lemma cellIndex_eq_iff:
  "cellIndex x y z = cellIndex x' y' z' \<longleftrightarrow> x mod 16 = x' mod 16 \<and> z mod 16 = z' mod 16 \<and> y = y'"
proof
  assume "cellIndex x y z = cellIndex x' y' z'"
  then have e: "x mod 16 + (z mod 16) * 16 + y * 256 = x' mod 16 + (z' mod 16) * 16 + y' * 256"
    by (simp only: cellIndex_def)
  have b: "0 \<le> x mod 16" "x mod 16 \<le> 15" "0 \<le> z mod 16" "z mod 16 \<le> 15"
    "0 \<le> x' mod 16" "x' mod 16 \<le> 15" "0 \<le> z' mod 16" "z' mod 16 \<le> 15"
    using pos_mod_bound[of 16 x] pos_mod_bound[of 16 z] pos_mod_bound[of 16 x'] pos_mod_bound[of 16 z']
    by simp_all
  show "x mod 16 = x' mod 16 \<and> z mod 16 = z' mod 16 \<and> y = y'"
    by (rule cell_index_inj[OF b e])
next
  assume "x mod 16 = x' mod 16 \<and> z mod 16 = z' mod 16 \<and> y = y'"
  then show "cellIndex x y z = cellIndex x' y' z'" by (simp add: cellIndex_def)
qed

lemma div_mod_eq_iff: "(a::int) div 16 = b div 16 \<and> a mod 16 = b mod 16 \<longleftrightarrow> a = b"
proof
  assume h: "a div 16 = b div 16 \<and> a mod 16 = b mod 16"
  have "a = a div 16 * 16 + a mod 16" by simp
  also have "\<dots> = b div 16 * 16 + b mod 16" by (simp only: h)
  also have "\<dots> = b" by simp
  finally show "a = b" .
qed simp

lemma wfChunks_setBlock [simp]: "wfChunks (setBlock s x y z b) = wfChunks s"
proof (cases "dataAt s (x div 16, z div 16)")
  case None
  then show ?thesis by (simp add: wfChunks_def dataAt_setBlock)
next
  case (Some d)
  have "\<And>k e. (dataAt (setBlock s x y z b) k = Some e \<longrightarrow> length e = 65536) \<longleftrightarrow>
     (\<forall>e'. dataAt s k = Some e' \<longrightarrow> (if k = (x div 16, z div 16) then e = store e' (cellIndex x y z) b else e = e')
        \<longrightarrow> length e = 65536)"
    using Some by (auto simp: dataAt_setBlock)
  then show ?thesis
    unfolding wfChunks_def by (metis length_store)
qed

lemma getBlock_setBlock:
  assumes "wfChunks s"
  shows "getBlock (setBlock s x y z b) x' y' z' =
    (if dataAt s (x div 16, z div 16) \<noteq> None \<and> 0 \<le> y \<and> y < 256 \<and> x' = x \<and> y' = y \<and> z' = z
     then b mod 256 else getBlock s x' y' z')"
proof (cases "dataAt s (x div 16, z div 16)")
  case None
  then show ?thesis by (simp add: getBlock_dataAt dataAt_setBlock)
next
  case (Some d)
  then have len: "length d = 65536" using assms by (auto simp: wfChunks_def)
  have upd: "dataAt (setBlock s x y z b) = (dataAt s)((x div 16, z div 16) \<mapsto> store d (cellIndex x y z) b)"
    using Some by (simp add: dataAt_setBlock)
  show ?thesis
  proof (cases "(x' div 16, z' div 16) = (x div 16, z div 16)")
    case False
    then have ne: "\<not> (x' = x \<and> y' = y \<and> z' = z)" by auto
    have "dataAt (setBlock s x y z b) (x' div 16, z' div 16) = dataAt s (x' div 16, z' div 16)"
      unfolding upd by (rule fun_upd_other[OF False])
    then have "getBlock (setBlock s x y z b) x' y' z' = getBlock s x' y' z'"
      by (simp only: getBlock_dataAt)
    then show ?thesis using ne by auto
  next
    case True
    have same: "cellIndex x y z = cellIndex x' y' z' \<longleftrightarrow> x' = x \<and> y' = y \<and> z' = z"
      using True div_mod_eq_iff[of x' x] div_mod_eq_iff[of z' z] by (auto simp: cellIndex_eq_iff)
    have new: "getBlock (setBlock s x y z b) x' y' z' =
        (if y' < 0 \<or> y' \<ge> 256 then AIR else store d (cellIndex x y z) b ! nat (cellIndex x' y' z'))"
      using True by (simp add: getBlock_dataAt upd)
    have old: "getBlock s x' y' z' = (if y' < 0 \<or> y' \<ge> 256 then AIR else d ! nat (cellIndex x' y' z'))"
      using True Some by (simp add: getBlock_dataAt)
    show ?thesis
    proof (cases "y' < 0 \<or> y' \<ge> 256")
      case True
      then have "\<not> (0 \<le> y \<and> y < 256 \<and> x' = x \<and> y' = y \<and> z' = z)" by auto
      then show ?thesis using True new old by auto
    next
      case False
      then have r: "0 \<le> cellIndex x' y' z'" "cellIndex x' y' z' < 65536" by simp_all
      have "store d (cellIndex x y z) b ! nat (cellIndex x' y' z') =
          (if cellIndex x y z = cellIndex x' y' z' then b mod 256 else d ! nat (cellIndex x' y' z'))"
        using r len by (simp add: nth_store)
      then have "getBlock (setBlock s x y z b) x' y' z' =
          (if x' = x \<and> y' = y \<and> z' = z then b mod 256 else getBlock s x' y' z')"
        using False new old same by simp
      moreover have "x' = x \<and> y' = y \<and> z' = z \<Longrightarrow> 0 \<le> y \<and> y < 256" using False by auto
      ultimately show ?thesis using Some by auto
    qed
  qed
qed

lemma scheduleFluidUpdate_fields [simp]:
  "dataAt (scheduleFluidUpdate s x y z) = dataAt s"
  "modifiedBlocks (scheduleFluidUpdate s x y z) = modifiedBlocks s"
  "gameMode (scheduleFluidUpdate s x y z) = gameMode s"
  "wfChunks (scheduleFluidUpdate s x y z) = wfChunks s"
  "getBlock (scheduleFluidUpdate s x y z) = getBlock s"
  by (auto simp: scheduleFluidUpdate_def dataAt_def wfChunks_def getBlock_def fun_eq_iff)

lemma fluidQueue_scheduleFluidUpdate:
  "fluidInv s \<Longrightarrow>
   fluidQueue (scheduleFluidUpdate s x y z) =
     fluidQueue s @ (if (x, y, z) \<in> set (fluidQueue s) then [] else [(x, y, z)])"
  by (simp add: scheduleFluidUpdate_def fluidInv_def)

lemma fluidInv_scheduleFluidUpdate: "fluidInv s \<Longrightarrow> fluidInv (scheduleFluidUpdate s x y z)"
  by (auto simp: scheduleFluidUpdate_def fluidInv_def)

lemma fluidInv_setBlock [simp]: "fluidInv (setBlock s x y z b) = fluidInv s"
  by (simp add: fluidInv_def)

lemma queueStep_id: "queueStep (\<lambda>s. s)"
  by (simp add: queueStep_def)

lemma queueStep_comp: "queueStep f \<Longrightarrow> queueStep g \<Longrightarrow> queueStep (\<lambda>s. g (f s))"
  unfolding queueStep_def
proof (intro allI impI)
  fix s assume f: "\<forall>s. fluidInv s \<longrightarrow> fluidInv (f s) \<and> (\<exists>ys. fluidQueue (f s) = fluidQueue s @ ys)"
    and g: "\<forall>s. fluidInv s \<longrightarrow> fluidInv (g s) \<and> (\<exists>ys. fluidQueue (g s) = fluidQueue s @ ys)"
    and inv: "fluidInv s"
  from f inv obtain ys where 1: "fluidInv (f s)" "fluidQueue (f s) = fluidQueue s @ ys" by blast
  from g 1(1) obtain zs where 2: "fluidInv (g (f s))" "fluidQueue (g (f s)) = fluidQueue (f s) @ zs" by blast
  show "fluidInv (g (f s)) \<and> (\<exists>ys. fluidQueue (g (f s)) = fluidQueue s @ ys)"
    using 1 2 by simp
qed

lemma queueStep_if: "queueStep f \<Longrightarrow> queueStep g \<Longrightarrow> queueStep (\<lambda>s. if c s then f s else g s)"
  unfolding queueStep_def by auto

lemma queueStep_fold: "(\<And>a. queueStep (f a)) \<Longrightarrow> queueStep (fold f as)"
proof (induction as)
  case Nil
  then show ?case by (simp add: queueStep_def)
next
  case (Cons a as)
  have "queueStep (\<lambda>s. fold f as (f a s))"
    by (rule queueStep_comp) (use Cons in auto)
  then show ?case by simp
qed

lemma queueStep_placeWater:
  "queueStep (\<lambda>s. scheduleFluidUpdate (setBlock s x y z b) x y z)"
  unfolding queueStep_def
proof (intro allI impI conjI)
  fix s assume inv: "fluidInv s"
  then have inv': "fluidInv (setBlock s x y z b)" by simp
  show "fluidInv (scheduleFluidUpdate (setBlock s x y z b) x y z)"
    using inv' by (rule fluidInv_scheduleFluidUpdate)
  show "\<exists>ys. fluidQueue (scheduleFluidUpdate (setBlock s x y z b) x y z) = fluidQueue s @ ys"
    using fluidQueue_scheduleFluidUpdate[OF inv', of x y z] by simp
qed

lemma queueStep_flowDown: "queueStep (flowDown x y z)"
  unfolding flowDown_def Let_def
  by (intro queueStep_if queueStep_placeWater queueStep_id)

lemma queueStep_flowSide: "queueStep (flowSide x y z n)"
proof -
  obtain dx dz where n: "n = (dx, dz)" by (cases n)
  show ?thesis
    unfolding n flowSide_def Let_def prod.case
    by (intro queueStep_if queueStep_placeWater queueStep_id)
qed

lemma queueStep_flowSideways: "queueStep (flowSideways x y z)"
  unfolding flowSideways_def Let_def
  by (intro queueStep_if queueStep_fold queueStep_flowSide queueStep_id)

lemma fluidInv_dequeue:
  assumes "fluidInv s" "fluidQueue s = c # rest"
  shows "fluidInv (s\<lparr>fluidQueue := rest, fluidQueueSet := fluidQueueSet s - {c}\<rparr>)"
  using assms by (auto simp: fluidInv_def)

lemma processFluid_queue:
  assumes "fluidInv s"
  shows "fluidInv (processFluid s) \<and> (\<exists>ys. fluidQueue (processFluid s) = tl (fluidQueue s) @ ys)"
proof (cases "fluidQueue s")
  case Nil
  then show ?thesis using assms by (simp add: processFluid_def)
next
  case (Cons c rest)
  obtain x y z where c: "c = (x, y, z)" by (cases c)
  let ?s = "s\<lparr>fluidQueue := rest, fluidQueueSet := fluidQueueSet s - {(x, y, z)}\<rparr>"
  have inv: "fluidInv ?s" using fluidInv_dequeue[OF assms Cons] c by simp
  have q: "fluidQueue ?s = tl (fluidQueue s)" using Cons by simp
  have step: "queueStep (\<lambda>t. if getBlock ?s x y z = WATER \<or> getBlock ?s x y z = FLOWING_WATER
       then (if getBlock ?s x y z = WATER then flowSideways x y z (flowDown x y z t) else flowDown x y z t)
       else t)"
  proof -
    have both: "queueStep (\<lambda>t. flowSideways x y z (flowDown x y z t))"
      by (rule queueStep_comp[OF queueStep_flowDown queueStep_flowSideways])
    show ?thesis
      by (cases "getBlock ?s x y z = WATER"; cases "getBlock ?s x y z = FLOWING_WATER")
         (simp_all add: both queueStep_flowDown queueStep_id)
  qed
  have eq: "processFluid s = (if getBlock ?s x y z = WATER \<or> getBlock ?s x y z = FLOWING_WATER
       then (if getBlock ?s x y z = WATER then flowSideways x y z (flowDown x y z ?s) else flowDown x y z ?s)
       else ?s)"
    using Cons c by (simp add: processFluid_def Let_def)
  from step inv obtain ys where
    "fluidInv (processFluid s)" "fluidQueue (processFluid s) = fluidQueue ?s @ ys"
    unfolding queueStep_def eq by blast
  then show ?thesis using q by auto
qed

lemma fluidInv_processFluidsLoop: "fluidInv s \<Longrightarrow> fluidInv (processFluidsLoop n s)"
proof (induction n s rule: processFluidsLoop.induct)
  case (1 processed s)
  show ?case
  proof (cases "length (fluidQueue s) > 0 \<and> processed < batchSize")
    case True
    then show ?thesis
      using 1 processFluid_queue[of s] by (subst processFluidsLoop.simps) simp
  next
    case False
    then show ?thesis using 1 by (subst processFluidsLoop.simps) auto
  qed
qed

lemma fluidInv_processFluids: "fluidInv s \<Longrightarrow> fluidInv (processFluids s)"
  by (simp add: processFluids_def fluidInv_processFluidsLoop)

text \<open>
  C9. If the fluid queue holds no coordinate twice and the membership set is exactly the set of
  queued coordinates, the same holds after \<^verbatim>\<open>scheduleFluidUpdate\<close>, after one turn of the
  loop of \<^verbatim>\<open>processFluids\<close> and after a whole call of \<^verbatim>\<open>processFluids\<close>. The queue is
  first-in first-out: scheduling appends at the back (nothing, for a coordinate already
  queued), and a loop turn removes the front entry and only appends behind the rest.
\<close>

theorem fluid_queue_invariant:
  assumes "fluidInv s"
  shows "fluidInv (scheduleFluidUpdate s x y z) \<and>
         fluidInv (processFluid s) \<and>
         fluidInv (processFluids s) \<and>
         fluidQueue (scheduleFluidUpdate s x y z) =
           fluidQueue s @ (if (x, y, z) \<in> set (fluidQueue s) then [] else [(x, y, z)]) \<and>
         (\<exists>ys. fluidQueue (processFluid s) = tl (fluidQueue s) @ ys)"
  using fluidInv_scheduleFluidUpdate[OF assms, of x y z] fluidInv_processFluids[OF assms]
    processFluid_queue[OF assms] fluidQueue_scheduleFluidUpdate[OF assms, of x y z]
  by simp

section \<open>Water over a solid block\<close>

lemma wfChunks_flatWorld [simp]: "wfChunks flatWorld"
  by (simp add: wfChunks_def dataAt_flatWorld)

lemma fluidInv_flatWorld [simp]: "fluidInv flatWorld"
  by (simp add: fluidInv_def)

lemma getBlock_flatWorld:
  "getBlock flatWorld x y z =
    (if x div 16 = 0 \<and> z div 16 = 0 \<and> 0 \<le> y \<and> y < 256 then flatBlock y else AIR)"
proof -
  have b: "0 \<le> x mod 16" "x mod 16 \<le> 15" "0 \<le> z mod 16" "z mod 16 \<le> 15"
    using pos_mod_bound[of 16 x] pos_mod_bound[of 16 z] by simp_all
  show ?thesis
    using flatChunk_nth[OF b, of y]
    by (auto simp: getBlock_dataAt dataAt_flatWorld cellIndex_def)
qed

lemma dequeue_fields [simp]:
  "dataAt (s\<lparr>fluidQueue := q, fluidQueueSet := qs\<rparr>) = dataAt s"
  "getBlock (s\<lparr>fluidQueue := q, fluidQueueSet := qs\<rparr>) = getBlock s"
  "wfChunks (s\<lparr>fluidQueue := q, fluidQueueSet := qs\<rparr>) = wfChunks s"
  by (auto simp: dataAt_def getBlock_def wfChunks_def fun_eq_iff)

text \<open>A block below water that is neither air, water, flora, a torch nor bedrock, and whose
  descriptor has no \<^verbatim>\<open>fluid\<close> field, is replaced by flowing water.\<close>

lemma flowDown_replaces:
  assumes "0 < y" "getBlock s x (y - 1) z = b"
    "b = AIR \<or> (b \<noteq> WATER \<and> b \<noteq> FLOWING_WATER \<and> \<not> propCross b \<and> b \<noteq> TORCH \<and> b \<noteq> BEDROCK
        \<and> propFluidUndefined b)"
  shows "flowDown x y z s = scheduleFluidUpdate (setBlock s x (y - 1) z FLOWING_WATER) x (y - 1) z"
  using assms by (auto simp: flowDown_def Let_def)

lemma flowDown_bedrock:
  "getBlock s x (y - 1) z = BEDROCK \<Longrightarrow> flowDown x y z s = s"
  by (simp add: flowDown_def Let_def BlockType_defs)

lemma flowSideways_over_water:
  "getBlock s x (y - 1) z = FLOWING_WATER \<Longrightarrow> flowSideways x y z s = s"
  by (simp add: flowSideways_def Let_def)

lemma processFluid_step:
  assumes "fluidQueue s = (x, y, z) # rest"
  shows "processFluid s =
    (let t = s\<lparr>fluidQueue := rest, fluidQueueSet := fluidQueueSet s - {(x, y, z)}\<rparr> in
     if getBlock s x y z = WATER then flowSideways x y z (flowDown x y z t)
     else if getBlock s x y z = FLOWING_WATER then flowDown x y z t
     else t)"
  using assms by (simp add: processFluid_def Let_def)

lemma processFluidsLoop_step:
  "fluidQueue s \<noteq> [] \<Longrightarrow> n < 500 \<Longrightarrow> processFluidsLoop n s = processFluidsLoop (Suc n) (processFluid s)"
  by (subst processFluidsLoop.simps) (simp add: batchSize_def)

lemma processFluidsLoop_done:
  "fluidQueue s = [] \<Longrightarrow> processFluidsLoop n s = s"
  by (subst processFluidsLoop.simps) simp

lemma block_props_values:
  "propCross GRASS = False" "propFluidUndefined GRASS = True"
  "propCross DIRT = False" "propFluidUndefined DIRT = True"
  by (simp_all add: propCross_def propFluidUndefined_def BLOCK_PROPS_def BLOCK_PROPS_table_def
      BlockType_defs mkProp_def truthy_def)

lemma grass_dirt_distinct:
  "GRASS \<noteq> AIR" "GRASS \<noteq> WATER" "GRASS \<noteq> FLOWING_WATER" "GRASS \<noteq> TORCH" "GRASS \<noteq> BEDROCK"
  "DIRT \<noteq> AIR" "DIRT \<noteq> WATER" "DIRT \<noteq> FLOWING_WATER" "DIRT \<noteq> TORCH" "DIRT \<noteq> BEDROCK"
  by (simp_all add: BlockType_defs)

lemma drilled_waterPlaced: "drilled 5 waterPlaced"
proof -
  have q: "fluidQueue waterPlaced = [(0, 5, 0)]" "fluidQueueSet waterPlaced = {(0, 5, 0)}"
    by (simp_all add: waterPlaced_def scheduleFluidUpdate_def)
  have g: "\<And>x y z. getBlock waterPlaced x y z =
      (if x = 0 \<and> z = 0 \<and> y = 5 then WATER else getBlock flatWorld x y z)"
    by (auto simp: waterPlaced_def getBlock_setBlock dataAt_flatWorld BlockType_defs)
  have d: "dataAt waterPlaced (0, 0) \<noteq> None"
    by (simp add: waterPlaced_def dataAt_setBlock dataAt_flatWorld)
  have "wfChunks waterPlaced" by (simp add: waterPlaced_def)
  then show ?thesis unfolding drilled_def using q g d by simp
qed

lemma drilled_step:
  assumes "drilled lo s" "1 < lo" "lo \<le> 5"
  shows "drilled (lo - 1) (processFluid s)"
proof -
  let ?t = "s\<lparr>fluidQueue := [], fluidQueueSet := fluidQueueSet s - {(0, lo, 0)}\<rparr>"
  have wf: "wfChunks s" and res: "dataAt s (0, 0) \<noteq> None" and q: "fluidQueue s = [(0, lo, 0)]"
    and qs: "fluidQueueSet s = {(0, lo, 0)}"
    and g: "\<And>x y z. getBlock s x y z =
        (if x = 0 \<and> z = 0 \<and> y = 5 then WATER
         else if x = 0 \<and> z = 0 \<and> lo \<le> y \<and> y < 5 then FLOWING_WATER
         else getBlock flatWorld x y z)"
    using assms(1) by (auto simp: drilled_def)
  have below: "getBlock ?t 0 (lo - 1) 0 = flatBlock (lo - 1)"
    using assms by (simp add: g getBlock_flatWorld)
  have solid: "flatBlock (lo - 1) = GRASS \<or> flatBlock (lo - 1) = DIRT"
    using assms by (auto simp: flatBlock_def)
  have fd: "flowDown 0 lo 0 ?t =
      scheduleFluidUpdate (setBlock ?t 0 (lo - 1) 0 FLOWING_WATER) 0 (lo - 1) 0"
    using solid assms
    by (intro flowDown_replaces[OF _ below]) (auto simp: block_props_values grass_dirt_distinct grass_dirt_distinct[symmetric])
  let ?v = "setBlock ?t 0 (lo - 1) 0 FLOWING_WATER"
  let ?u = "scheduleFluidUpdate ?v 0 (lo - 1) 0"
  have gv: "\<And>x y z. getBlock ?v x y z =
      (if x = 0 \<and> y = lo - 1 \<and> z = 0 then FLOWING_WATER else getBlock s x y z)"
    using wf res assms by (simp add: getBlock_setBlock BlockType_defs)
  have side: "flowSideways 0 lo 0 ?u = ?u"
    by (rule flowSideways_over_water) (simp add: gv)
  have here: "getBlock s 0 lo 0 = (if lo = 5 then WATER else FLOWING_WATER)"
    using assms by (simp add: g)
  have pf: "processFluid s = ?u"
    using here side fd by (simp add: processFluid_step[OF q] Let_def BlockType_defs)
  have "fluidQueue ?u = [(0, lo - 1, 0)]" "fluidQueueSet ?u = {(0, lo - 1, 0)}"
    using qs by (simp_all add: scheduleFluidUpdate_def)
  moreover have "wfChunks ?u" using wf by simp
  moreover have "dataAt ?u (0, 0) \<noteq> None"
    using res by (auto simp: dataAt_setBlock)
  moreover have "\<And>x y z. getBlock ?u x y z =
        (if x = 0 \<and> z = 0 \<and> y = 5 then WATER
         else if x = 0 \<and> z = 0 \<and> lo - 1 \<le> y \<and> y < 5 then FLOWING_WATER
         else getBlock flatWorld x y z)"
    using assms by (auto simp: gv g)
  ultimately show ?thesis unfolding pf drilled_def by simp
qed

lemma drilled_last:
  assumes "drilled 1 s"
  shows "fluidQueue (processFluid s) = []" "getBlock (processFluid s) = getBlock s"
proof -
  have q: "fluidQueue s = [(0, 1, 0)]"
    and g: "\<And>x y z. getBlock s x y z =
        (if x = 0 \<and> z = 0 \<and> y = 5 then WATER
         else if x = 0 \<and> z = 0 \<and> 1 \<le> y \<and> y < 5 then FLOWING_WATER
         else getBlock flatWorld x y z)"
    using assms by (auto simp: drilled_def)
  let ?t = "s\<lparr>fluidQueue := [], fluidQueueSet := fluidQueueSet s - {(0, 1, 0)}\<rparr>"
  have "getBlock ?t 0 (1 - 1) 0 = BEDROCK"
    by (simp add: g getBlock_flatWorld flatBlock_def)
  then have "flowDown 0 1 0 ?t = ?t" by (rule flowDown_bedrock)
  moreover have "getBlock s 0 1 0 = FLOWING_WATER" by (simp add: g)
  ultimately have pf: "processFluid s = ?t"
    by (simp add: processFluid_step[OF q] Let_def BlockType_defs)
  show "fluidQueue (processFluid s) = []" "getBlock (processFluid s) = getBlock s"
    unfolding pf by simp_all
qed

text \<open>
  C2. In the Flat world, a water source is placed at \<open>(0, 5, 0)\<close>, on the grass block at
  \<open>(0, 4, 0)\<close>. One call of \<^verbatim>\<open>processFluids\<close> replaces the grass block and the three dirt
  blocks below it by flowing water; only the bedrock at \<open>y = 0\<close> stops the water.
\<close>

theorem water_overwrites_solid_blocks:
  "getBlock waterPlaced 0 5 0 = WATER \<and>
   getBlock waterPlaced 0 4 0 = GRASS \<and>
   getBlock waterPlaced 0 3 0 = DIRT \<and>
   getBlock (processFluid waterPlaced) 0 4 0 = FLOWING_WATER \<and>
   getBlock (processFluids waterPlaced) 0 4 0 = FLOWING_WATER \<and>
   getBlock (processFluids waterPlaced) 0 3 0 = FLOWING_WATER \<and>
   getBlock (processFluids waterPlaced) 0 2 0 = FLOWING_WATER \<and>
   getBlock (processFluids waterPlaced) 0 1 0 = FLOWING_WATER \<and>
   getBlock (processFluids waterPlaced) 0 0 0 = BEDROCK"
proof -
  let ?s1 = "processFluid waterPlaced"
  let ?s2 = "processFluid ?s1"
  let ?s3 = "processFluid ?s2"
  let ?s4 = "processFluid ?s3"
  let ?s5 = "processFluid ?s4"
  have d5: "drilled 5 waterPlaced" by (rule drilled_waterPlaced)
  have d4: "drilled 4 ?s1" using drilled_step[OF d5] by simp
  have d3: "drilled 3 ?s2" using drilled_step[OF d4] by simp
  have d2: "drilled 2 ?s3" using drilled_step[OF d3] by simp
  have d1: "drilled 1 ?s4" using drilled_step[OF d2] by simp
  have fin: "fluidQueue ?s5 = []" "getBlock ?s5 = getBlock ?s4"
    using drilled_last[OF d1] by simp_all
  have "processFluids waterPlaced = processFluidsLoop 0 waterPlaced"
    using d5 by (simp add: processFluids_def drilled_def)
  also have "\<dots> = processFluidsLoop (Suc 0) ?s1"
    using d5 by (intro processFluidsLoop_step) (simp_all add: drilled_def)
  also have "\<dots> = processFluidsLoop (Suc (Suc 0)) ?s2"
    using d4 by (intro processFluidsLoop_step) (simp_all add: drilled_def)
  also have "\<dots> = processFluidsLoop (Suc (Suc (Suc 0))) ?s3"
    using d3 by (intro processFluidsLoop_step) (simp_all add: drilled_def)
  also have "\<dots> = processFluidsLoop (Suc (Suc (Suc (Suc 0)))) ?s4"
    using d2 by (intro processFluidsLoop_step) (simp_all add: drilled_def)
  also have "\<dots> = processFluidsLoop (Suc (Suc (Suc (Suc (Suc 0))))) ?s5"
    using d1 by (intro processFluidsLoop_step) (simp_all add: drilled_def)
  also have "\<dots> = ?s5" using fin(1) by (rule processFluidsLoop_done)
  finally have "getBlock (processFluids waterPlaced) = getBlock ?s4" using fin(2) by simp
  then show ?thesis
    using d5 d4 d1 unfolding drilled_def
    by (simp add: getBlock_flatWorld flatBlock_def)
qed

text \<open>The invariant of the fluid queue at the sample state with one queued coordinate.\<close>

theorem fluid_queue_invariant_witness:
  "fluidInv waterPlaced \<and>
   fluidInv (scheduleFluidUpdate waterPlaced 1 5 0) \<and>
   fluidInv (processFluid waterPlaced) \<and>
   fluidInv (processFluids waterPlaced) \<and>
   fluidQueue (scheduleFluidUpdate waterPlaced 1 5 0) =
     fluidQueue waterPlaced @ (if (1, 5, 0) \<in> set (fluidQueue waterPlaced) then [] else [(1, 5, 0)]) \<and>
   (\<exists>ys. fluidQueue (processFluid waterPlaced) = tl (fluidQueue waterPlaced) @ ys)"
proof -
  have "fluidInv waterPlaced"
    unfolding waterPlaced_def by (rule fluidInv_scheduleFluidUpdate) simp
  then show ?thesis using fluid_queue_invariant[of waterPlaced 1 5 0] by simp
qed

section \<open>Mining\<close>

lemma startMining_survival:
  assumes "gameMode s \<noteq> Creative"
  shows "chunks (startMining raycast s) = chunks s" "modifiedBlocks (startMining raycast s) = modifiedBlocks s"
  using assms
  by (auto simp: startMining_def Let_def split: option.splits prod.splits)

lemma updateMining_guard:
  assumes "gameMode s \<noteq> Creative" "raycast s = Some hit" "hitBlock hit = (bx, by, bz)"
    "hardness (propsOrEmpty (getBlock s bx by bz)) = Some h" "h < 0"
  shows "chunks (updateMining raycast dt s) = chunks s"
    "modifiedBlocks (updateMining raycast dt s) = modifiedBlocks s"
proof -
  have g: "\<And>m p. getBlock (s\<lparr>miningBlock := m, miningProgress := p\<rparr>) = getBlock s"
    by (simp add: getBlock_def fun_eq_iff)
  show "chunks (updateMining raycast dt s) = chunks s"
    "modifiedBlocks (updateMining raycast dt s) = modifiedBlocks s"
    using assms by (auto simp: updateMining_def Let_def g)
qed

text \<open>
  C8. Outside Creative mode, when the block under the cross-hair has a negative hardness,
  neither \<^verbatim>\<open>startMining\<close> nor \<^verbatim>\<open>updateMining\<close> changes the chunk store (so no voxel buffer
  changes) or the modification overlay.
\<close>

theorem unbreakable_guard:
  assumes "gameMode s \<noteq> Creative" "raycast s = Some hit" "hitBlock hit = (bx, by, bz)"
    "hardness (propsOrEmpty (getBlock s bx by bz)) = Some h" "h < 0"
  shows "chunks (startMining raycast s) = chunks s \<and>
         modifiedBlocks (startMining raycast s) = modifiedBlocks s \<and>
         chunks (updateMining raycast dt s) = chunks s \<and>
         modifiedBlocks (updateMining raycast dt s) = modifiedBlocks s"
  using startMining_survival[OF assms(1)] updateMining_guard[where raycast = raycast, OF assms] by simp

lemma hitBlock_lookingAtBedrock:
  "hitBlock \<lparr>point = (1, 1 / 2, 1 / 2), normal = (1, 0, 0)\<rparr> = (0, 0, 0)"
  by (simp add: hitBlock_def)

lemma hitBlock_lookingAtGrass:
  "hitBlock \<lparr>point = (1 / 2, 5, 1 / 2), normal = (0, 1, 0)\<rparr> = (0, 4, 0)"
proof -
  have "\<lfloor>5 - 1 / (2::real)\<rfloor> = 4" by linarith
  then show ?thesis by (simp add: hitBlock_def)
qed

lemma miningAt_fields [simp]:
  "gameMode (miningAt c s) = gameMode s" "getBlock (miningAt c s) = getBlock s"
  "isMining (miningAt c s) = True" "miningBlock (miningAt c s) = Some c"
  "miningProgress (miningAt c s) = miningProgress s" "chunks (miningAt c s) = chunks s"
  "modifiedBlocks (miningAt c s) = modifiedBlocks s"
  "inventory (miningAt c s) = inventory s" "selectedSlot (miningAt c s) = selectedSlot s"
  by (simp_all add: miningAt_def getBlock_def fun_eq_iff)

lemma holding_fields [simp]:
  "gameMode (holding t s) = gameMode s" "getBlock (holding t s) = getBlock s"
  "isMining (holding t s) = isMining s" "miningBlock (holding t s) = miningBlock s"
  "miningProgress (holding t s) = miningProgress s"
  "selectedSlot (holding t s) = selectedSlot s"
  by (simp_all add: holding_def getBlock_def fun_eq_iff)

lemma props_BEDROCK: "hardness (propsOrEmpty BEDROCK) = Some (- 1)"
  by (simp add: propsOrEmpty_def BLOCK_PROPS_def BLOCK_PROPS_table_def BlockType_defs mkProp_def)

theorem unbreakable_guard_witness:
  "gameMode (miningAt (0, 0, 0) flatWorld) \<noteq> Creative \<and>
   hardness (propsOrEmpty (getBlock (miningAt (0, 0, 0) flatWorld) 0 0 0)) = Some (- 1) \<and>
   chunks (startMining lookingAtBedrock (miningAt (0, 0, 0) flatWorld)) = chunks (miningAt (0, 0, 0) flatWorld) \<and>
   modifiedBlocks (startMining lookingAtBedrock (miningAt (0, 0, 0) flatWorld)) = modifiedBlocks (miningAt (0, 0, 0) flatWorld) \<and>
   chunks (updateMining lookingAtBedrock (1 / 10) (miningAt (0, 0, 0) flatWorld)) = chunks (miningAt (0, 0, 0) flatWorld) \<and>
   modifiedBlocks (updateMining lookingAtBedrock (1 / 10) (miningAt (0, 0, 0) flatWorld)) = modifiedBlocks (miningAt (0, 0, 0) flatWorld)"
proof -
  let ?s = "miningAt (0, 0, 0) flatWorld"
  have 1: "gameMode ?s \<noteq> Creative" by simp
  have 2: "lookingAtBedrock ?s = Some \<lparr>point = (1, 1 / 2, 1 / 2), normal = (1, 0, 0)\<rparr>"
    by (simp add: lookingAtBedrock_def)
  have 3: "hardness (propsOrEmpty (getBlock ?s 0 0 0)) = Some (- 1)"
    by (simp add: getBlock_flatWorld flatBlock_def props_BEDROCK)
  have 4: "(- 1 :: real) < 0" by simp
  show ?thesis
    using unbreakable_guard[where raycast = lookingAtBedrock and dt = "1 / 10",
        OF 1 2 hitBlock_lookingAtBedrock 3 4] 1 3 by simp
qed


lemma updateMining_progress:
  assumes "isMining s" "miningBlock s = Some (bx, by, bz)" "raycast s = Some hit"
    "hitBlock hit = (bx, by, bz)" "getBlock s bx by bz = b" "b \<noteq> AIR"
    "hardness (propsOrEmpty b) = Some hrd" "0 \<le> hrd"
    "miningProgress s + dt * miningSpeed (propsOrEmpty b) (heldItemOf s) < hrd"
  shows "miningProgress (updateMining raycast dt s) =
         miningProgress s + dt * miningSpeed (propsOrEmpty b) (heldItemOf s)"
  using assms by (simp add: updateMining_def Let_def)

text \<open>
  C10, as the code has it. While a block is being mined and not yet broken, one call of
  \<^verbatim>\<open>updateMining\<close> adds \<open>dt\<close> times the speed multiplier to the progress. When the block's
  descriptor names a required tool type and the held item's descriptor carries an efficiency,
  the multiplier is that efficiency only if the held item's tool type equals the block's required
  tool type (and the efficiency is not zero); otherwise it is 1.
\<close>

theorem mining_speed_requires_matching_tool:
  assumes "isMining s" "miningBlock s = Some (bx, by, bz)" "raycast s = Some hit"
    "hitBlock hit = (bx, by, bz)" "getBlock s bx by bz = b" "b \<noteq> AIR"
    "hardness (propsOrEmpty b) = Some hrd" "0 \<le> hrd"
    "toolType (propsOrEmpty b) = Some required"
    "heldItemOf s = Some item" "efficiency (propsOrEmpty (itemId item)) = Some e"
    "miningProgress s + dt * e < hrd" "miningProgress s + dt < hrd"
  shows "miningProgress (updateMining raycast dt s) =
         miningProgress s + dt * (if toolType (propsOrEmpty (itemId item)) = Some required \<and> e \<noteq> 0
                                  then e else 1)"
proof -
  have sp: "miningSpeed (propsOrEmpty b) (heldItemOf s) =
      (if toolType (propsOrEmpty (itemId item)) = Some required \<and> e \<noteq> 0 then e else 1)"
    using assms(9,10,11) by (simp add: miningSpeed_def Let_def truthyNum_def)
  have "miningProgress s + dt * miningSpeed (propsOrEmpty b) (heldItemOf s) < hrd"
    unfolding sp using assms(12,13) by simp
  from updateMining_progress[where raycast = raycast, OF assms(1-8) this] show ?thesis
    unfolding sp .
qed

lemma props_GRASS:
  "hardness (propsOrEmpty GRASS) = Some (6 / 10)" "toolType (propsOrEmpty GRASS) = Some Shovel"
  by (simp_all add: propsOrEmpty_def BLOCK_PROPS_def BLOCK_PROPS_table_def BlockType_defs mkProp_def)

lemma props_WOODEN_AXE:
  "efficiency (propsOrEmpty WOODEN_AXE) = Some 2" "toolType (propsOrEmpty WOODEN_AXE) = Some Axe"
  by (simp_all add: propsOrEmpty_def BLOCK_PROPS_def BLOCK_PROPS_table_def BlockType_defs mkProp_def)

lemma props_WOODEN_SHOVEL:
  "efficiency (propsOrEmpty WOODEN_SHOVEL) = Some 2" "toolType (propsOrEmpty WOODEN_SHOVEL) = Some Shovel"
  by (simp_all add: propsOrEmpty_def BLOCK_PROPS_def BLOCK_PROPS_table_def BlockType_defs mkProp_def)

lemma heldItemOf_holding:
  "heldItemOf (holding t (miningAt c flatWorld)) = Some \<lparr>itemId = t, count = 1\<rparr>"
  by (simp add: heldItemOf_def holding_def miningAt_def flatWorld_def newEngine_def)

lemma miningProgress_flatWorld [simp]: "miningProgress flatWorld = 0"
  by (simp add: flatWorld_def newEngine_def)

lemma GRASS_not_AIR: "GRASS \<noteq> AIR"
  by (simp add: BlockType_defs)

text \<open>
  C10, as stated, fails: grass names the shovel as its tool, the player holds a wooden axe,
  whose descriptor carries efficiency 2, and the progress after a tenth of a second is
  \<open>0.1\<close>, not \<open>0.2\<close>: the multiplier is 1.
\<close>

theorem efficiency_not_applied_to_wrong_tool:
  "toolType (propsOrEmpty (getBlock (holding WOODEN_AXE (miningAt (0, 4, 0) flatWorld)) 0 4 0)) = Some Shovel \<and>
   heldItemOf (holding WOODEN_AXE (miningAt (0, 4, 0) flatWorld)) = Some \<lparr>itemId = WOODEN_AXE, count = 1\<rparr> \<and>
   efficiency (propsOrEmpty WOODEN_AXE) = Some 2 \<and>
   miningProgress (holding WOODEN_AXE (miningAt (0, 4, 0) flatWorld)) = 0 \<and>
   miningProgress (updateMining lookingAtGrass (1 / 10) (holding WOODEN_AXE (miningAt (0, 4, 0) flatWorld))) = 1 / 10"
proof -
  let ?s = "holding WOODEN_AXE (miningAt (0, 4, 0) flatWorld)"
  have g: "getBlock ?s 0 4 0 = GRASS"
    by (simp add: getBlock_flatWorld flatBlock_def)
  have ray: "lookingAtGrass ?s = Some \<lparr>point = (1 / 2, 5, 1 / 2), normal = (0, 1, 0)\<rparr>"
    by (simp add: lookingAtGrass_def)
  have sp: "miningSpeed (propsOrEmpty GRASS) (heldItemOf ?s) = 1"
    by (simp add: heldItemOf_holding miningSpeed_def props_GRASS props_WOODEN_AXE)
  have "miningProgress (updateMining lookingAtGrass (1 / 10) ?s) =
        miningProgress ?s + 1 / 10 * miningSpeed (propsOrEmpty GRASS) (heldItemOf ?s)"
    by (rule updateMining_progress[where raycast = lookingAtGrass, OF _ _ ray hitBlock_lookingAtGrass g
          GRASS_not_AIR props_GRASS(1)])
       (simp_all add: sp)
  then have "miningProgress (updateMining lookingAtGrass (1 / 10) ?s) = 1 / 10"
    by (simp add: sp)
  moreover have "toolType (propsOrEmpty (getBlock ?s 0 4 0)) = Some Shovel"
    unfolding g by (rule props_GRASS(2))
  ultimately show ?thesis
    by (simp add: props_WOODEN_AXE heldItemOf_holding)
qed

theorem mining_speed_requires_matching_tool_witness:
  "isMining (holding WOODEN_SHOVEL (miningAt (0, 4, 0) flatWorld)) \<and>
   heldItemOf (holding WOODEN_SHOVEL (miningAt (0, 4, 0) flatWorld)) = Some \<lparr>itemId = WOODEN_SHOVEL, count = 1\<rparr> \<and>
   toolType (propsOrEmpty GRASS) = Some Shovel \<and>
   efficiency (propsOrEmpty WOODEN_SHOVEL) = Some 2 \<and>
   miningProgress (updateMining lookingAtGrass (1 / 10) (holding WOODEN_SHOVEL (miningAt (0, 4, 0) flatWorld))) = 2 / 10"
proof -
  let ?s = "holding WOODEN_SHOVEL (miningAt (0, 4, 0) flatWorld)"
  have g: "getBlock ?s 0 4 0 = GRASS"
    by (simp add: getBlock_flatWorld flatBlock_def)
  have ray: "lookingAtGrass ?s = Some \<lparr>point = (1 / 2, 5, 1 / 2), normal = (0, 1, 0)\<rparr>"
    by (simp add: lookingAtGrass_def)
  have m: "isMining ?s" "miningBlock ?s = Some (0, 4, 0)" by simp_all
  have h: "(0::real) \<le> 6 / 10" by simp
  have i: "itemId \<lparr>itemId = WOODEN_SHOVEL, count = 1\<rparr> = WOODEN_SHOVEL" by simp
  have e: "efficiency (propsOrEmpty (itemId \<lparr>itemId = WOODEN_SHOVEL, count = 1\<rparr>)) = Some 2"
    by (simp add: props_WOODEN_SHOVEL)
  have p1: "miningProgress ?s + 1 / 10 * 2 < 6 / 10" by simp
  have p2: "miningProgress ?s + 1 / 10 < 6 / 10" by simp
  show ?thesis
    using mining_speed_requires_matching_tool[where raycast = lookingAtGrass,
        OF m ray hitBlock_lookingAtGrass g GRASS_not_AIR props_GRASS(1) h props_GRASS(2)
           heldItemOf_holding e p1 p2]
    by (simp add: props_GRASS props_WOODEN_SHOVEL heldItemOf_holding)
qed

section \<open>Streaming\<close>



lemma map_of_None_iff: "map_of xs k = None \<longleftrightarrow> k \<notin> fst ` set xs"
  by (simp add: map_of_eq_None_iff)

lemma loadChunk_keys: "residentKeys (loadChunk cx cz s) = insert (cx, cz) (residentKeys s)"
  by (auto simp: loadChunk_def residentKeys_def Let_def dom_update map_of_None_iff
      split: prod.splits)

lemma loadChunk_distinct:
  "distinct (map fst (chunks s)) \<Longrightarrow> distinct (map fst (chunks (loadChunk cx cz s)))"
  by (auto simp: loadChunk_def Let_def distinct_update split: prod.splits)

lemma fold_loadChunk_z_keys:
  "residentKeys (fold (\<lambda>z. loadChunk a (pcz + z)) zs s) = residentKeys s \<union> (\<lambda>z. (a, pcz + z)) ` set zs"
  by (induction zs arbitrary: s) (auto simp: loadChunk_keys)

lemma fold_loadChunk_z_distinct:
  "distinct (map fst (chunks s)) \<Longrightarrow> distinct (map fst (chunks (fold (\<lambda>z. loadChunk a (pcz + z)) zs s)))"
  by (induction zs arbitrary: s) (auto simp: loadChunk_distinct)

lemma fold_loadChunk_keys:
  "residentKeys (fold (\<lambda>x. fold (\<lambda>z. loadChunk (pcx + x) (pcz + z)) zs) xs s) =
     residentKeys s \<union> (\<lambda>(x, z). (pcx + x, pcz + z)) ` (set xs \<times> set zs)"
  by (induction xs arbitrary: s) (auto simp: fold_loadChunk_z_keys)

lemma fold_loadChunk_distinct:
  "distinct (map fst (chunks s)) \<Longrightarrow>
   distinct (map fst (chunks (fold (\<lambda>x. fold (\<lambda>z. loadChunk (pcx + x) (pcz + z)) zs) xs s)))"
  by (induction xs arbitrary: s) (auto simp: fold_loadChunk_z_distinct)

lemma chunks_evictChunk:
  "chunks (evictChunk pcx pcz dst e s) =
     filter (\<lambda>e'. \<not> (tooFar pcx pcz dst (fst e') \<and> fst e' = fst e)) (chunks s)"
proof (cases "tooFar pcx pcz dst (fst e)")
  case True
  have "AList.delete (fst e) (chunks s) = filter (\<lambda>e'. fst e' \<noteq> fst e) (chunks s)"
    by (simp add: AList.delete_eq case_prod_unfold eq_commute)
  also have "\<dots> = filter (\<lambda>e'. \<not> (tooFar pcx pcz dst (fst e') \<and> fst e' = fst e)) (chunks s)"
    using True by (intro filter_cong) auto
  finally show ?thesis using True by (simp add: evictChunk_def)
next
  case False
  then have "filter (\<lambda>e'. \<not> (tooFar pcx pcz dst (fst e') \<and> fst e' = fst e)) (chunks s) = chunks s"
    by (intro filter_True) auto
  then show ?thesis using False by (simp add: evictChunk_def)
qed

lemma fold_evictChunk:
  "chunks (fold (evictChunk pcx pcz dst) es s) =
     filter (\<lambda>e. \<not> (tooFar pcx pcz dst (fst e) \<and> fst e \<in> fst ` set es)) (chunks s)"
proof (induction es arbitrary: s)
  case Nil
  then show ?case by simp
next
  case (Cons e es)
  have "chunks (fold (evictChunk pcx pcz dst) (e # es) s) =
      filter (\<lambda>e'. \<not> (tooFar pcx pcz dst (fst e') \<and> fst e' \<in> fst ` set es))
        (filter (\<lambda>e'. \<not> (tooFar pcx pcz dst (fst e') \<and> fst e' = fst e)) (chunks s))"
    by (simp add: Cons chunks_evictChunk)
  also have "\<dots> = filter (\<lambda>e'. \<not> (tooFar pcx pcz dst (fst e') \<and> fst e' \<in> fst ` set (e # es))) (chunks s)"
    unfolding filter_filter by (intro filter_cong) auto
  finally show ?case .
qed

lemma updateWorldChunks_chunks:
  assumes "playerPos s = (px, py, pz)"
  shows "chunks (updateWorldChunks s) =
     filter (\<lambda>e. \<not> tooFar \<lfloor>px / 16\<rfloor> \<lfloor>pz / 16\<rfloor> (renderDistance (settings s)) (fst e))
       (chunks (fold (\<lambda>x. fold (\<lambda>z. loadChunk (\<lfloor>px / 16\<rfloor> + x) (\<lfloor>pz / 16\<rfloor> + z))
                  [- renderDistance (settings s) .. renderDistance (settings s)])
                  [- renderDistance (settings s) .. renderDistance (settings s)] s))"
proof -
  have "\<And>P xs. filter (\<lambda>e. \<not> (P (fst e) \<and> fst e \<in> fst ` set xs)) xs = filter (\<lambda>e. \<not> P (fst e)) xs"
    by (intro filter_cong) auto
  then show ?thesis
    unfolding updateWorldChunks_def assms Let_def prod.case CHUNK_SIZE_def
    by (simp add: fold_evictChunk)
qed

lemma square_image:
  "(\<lambda>(x, z). (a + x, b + z)) ` ({- d .. d} \<times> {- d .. d}) = {a - d .. a + d} \<times> {b - d .. b + (d::int)}"
proof (intro set_eqI iffI)
  fix k
  assume k: "k \<in> {a - d .. a + d} \<times> {b - d .. b + d}"
  have "(fst k - a, snd k - b) \<in> {- d .. d} \<times> {- d .. d}" using k by auto
  moreover have "k = (\<lambda>(x, z). (a + x, b + z)) (fst k - a, snd k - b)" by simp
  ultimately show "k \<in> (\<lambda>(x, z). (a + x, b + z)) ` ({- d .. d} \<times> {- d .. d})"
    by (rule rev_image_eqI)
next
  fix k
  assume "k \<in> (\<lambda>(x, z). (a + x, b + z)) ` ({- d .. d} \<times> {- d .. d})"
  then show "k \<in> {a - d .. a + d} \<times> {b - d .. b + d}" by auto
qed

lemma updateWorldChunks_keys:
  assumes "playerPos s = (px, py, pz)"
  shows "residentKeys (updateWorldChunks s) =
     {k \<in> residentKeys s \<union>
            {\<lfloor>px / 16\<rfloor> - renderDistance (settings s) .. \<lfloor>px / 16\<rfloor> + renderDistance (settings s)} \<times>
            {\<lfloor>pz / 16\<rfloor> - renderDistance (settings s) .. \<lfloor>pz / 16\<rfloor> + renderDistance (settings s)}.
      \<not> tooFar \<lfloor>px / 16\<rfloor> \<lfloor>pz / 16\<rfloor> (renderDistance (settings s)) k}"
proof -
  let ?d = "renderDistance (settings s)"
  let ?s1 = "fold (\<lambda>x. fold (\<lambda>z. loadChunk (\<lfloor>px / 16\<rfloor> + x) (\<lfloor>pz / 16\<rfloor> + z)) [- ?d .. ?d]) [- ?d .. ?d] s"
  have k1: "residentKeys ?s1 = residentKeys s \<union> {\<lfloor>px / 16\<rfloor> - ?d .. \<lfloor>px / 16\<rfloor> + ?d} \<times> {\<lfloor>pz / 16\<rfloor> - ?d .. \<lfloor>pz / 16\<rfloor> + ?d}"
    by (simp add: fold_loadChunk_keys square_image)
  have "residentKeys (updateWorldChunks s) = {k \<in> residentKeys ?s1. \<not> tooFar \<lfloor>px / 16\<rfloor> \<lfloor>pz / 16\<rfloor> ?d k}"
    unfolding residentKeys_def updateWorldChunks_chunks[OF assms] by auto
  then show ?thesis unfolding k1 .
qed

lemma updateWorldChunks_distinct:
  assumes "playerPos s = (px, py, pz)" "distinct (map fst (chunks s))"
  shows "distinct (map fst (chunks (updateWorldChunks s)))"
  unfolding updateWorldChunks_chunks[OF assms(1)]
  by (intro distinct_map_filter fold_loadChunk_distinct assms(2))


text \<open>
  C7. After a streaming pass, every chunk of the square of the configured radius around the
  viewpoint chunk is resident, and no chunk farther than radius + 2 (in Chebyshev distance) is;
  from an empty store, with viewpoint chunk \<open>(0, 0)\<close> and radius 2, exactly the 25 chunks of
  \<open>[-2, 2] \<times> [-2, 2]\<close> are resident.
\<close>

theorem streaming_pass:
  assumes "playerPos s = (px, py, pz)"
  shows "(\<forall>cx cz. \<bar>cx - \<lfloor>px / 16\<rfloor>\<bar> \<le> renderDistance (settings s) \<and>
                  \<bar>cz - \<lfloor>pz / 16\<rfloor>\<bar> \<le> renderDistance (settings s)
            \<longrightarrow> (cx, cz) \<in> residentKeys (updateWorldChunks s)) \<and>
         (\<forall>cx cz. max \<bar>cx - \<lfloor>px / 16\<rfloor>\<bar> \<bar>cz - \<lfloor>pz / 16\<rfloor>\<bar> > renderDistance (settings s) + 2
            \<longrightarrow> (cx, cz) \<notin> residentKeys (updateWorldChunks s)) \<and>
         (chunks s = [] \<and> \<lfloor>px / 16\<rfloor> = 0 \<and> \<lfloor>pz / 16\<rfloor> = 0 \<and> renderDistance (settings s) = 2
            \<longrightarrow> residentKeys (updateWorldChunks s) = {- 2 .. 2} \<times> {- 2 .. 2} \<and>
                length (chunks (updateWorldChunks s)) = 25)"
proof (intro conjI allI impI)
  fix cx cz
  assume "\<bar>cx - \<lfloor>px / 16\<rfloor>\<bar> \<le> renderDistance (settings s) \<and> \<bar>cz - \<lfloor>pz / 16\<rfloor>\<bar> \<le> renderDistance (settings s)"
  then show "(cx, cz) \<in> residentKeys (updateWorldChunks s)"
    unfolding updateWorldChunks_keys[OF assms] by (auto simp: tooFar_def)
next
  fix cx cz
  assume "max \<bar>cx - \<lfloor>px / 16\<rfloor>\<bar> \<bar>cz - \<lfloor>pz / 16\<rfloor>\<bar> > renderDistance (settings s) + 2"
  then show "(cx, cz) \<notin> residentKeys (updateWorldChunks s)"
    unfolding updateWorldChunks_keys[OF assms] by (auto simp: tooFar_def)
next
  assume a: "chunks s = [] \<and> \<lfloor>px / 16\<rfloor> = 0 \<and> \<lfloor>pz / 16\<rfloor> = 0 \<and> renderDistance (settings s) = 2"
  then have "residentKeys s = {}" by (simp add: residentKeys_def)
  then show keys: "residentKeys (updateWorldChunks s) = {- 2 .. 2} \<times> {- 2 .. 2}"
    unfolding updateWorldChunks_keys[OF assms] using a by (auto simp: tooFar_def)
  have "distinct (map fst (chunks (updateWorldChunks s)))"
    using a by (intro updateWorldChunks_distinct[OF assms]) simp
  then have "length (chunks (updateWorldChunks s)) = card (residentKeys (updateWorldChunks s))"
    unfolding residentKeys_def using distinct_card[of "map fst (chunks (updateWorldChunks s))"] by simp
  also have "\<dots> = 25" unfolding keys by (simp add: card_cartesian_product)
  finally show "length (chunks (updateWorldChunks s)) = 25" .
qed

theorem streaming_pass_witness:
  "playerPos (newEngine constNoise 0 Flat Survival (INITIAL_SETTINGS\<lparr>renderDistance := 2\<rparr>) []
      (0, 80, 0) (replicate 36 None) (\<lambda>n. 0)) = (0, 80, 0) \<and>
   residentKeys (constructEngine constNoise 0 Flat Survival (INITIAL_SETTINGS\<lparr>renderDistance := 2\<rparr>) []
      (0, 80, 0) (replicate 36 None) (\<lambda>n. 0)) = {- 2 .. 2} \<times> {- 2 .. 2} \<and>
   length (chunks (constructEngine constNoise 0 Flat Survival (INITIAL_SETTINGS\<lparr>renderDistance := 2\<rparr>) []
      (0, 80, 0) (replicate 36 None) (\<lambda>n. 0))) = 25 \<and>
   (2, - 2) \<in> residentKeys (constructEngine constNoise 0 Flat Survival (INITIAL_SETTINGS\<lparr>renderDistance := 2\<rparr>) []
      (0, 80, 0) (replicate 36 None) (\<lambda>n. 0)) \<and>
   (5, 0) \<notin> residentKeys (constructEngine constNoise 0 Flat Survival (INITIAL_SETTINGS\<lparr>renderDistance := 2\<rparr>) []
      (0, 80, 0) (replicate 36 None) (\<lambda>n. 0))"
proof -
  let ?s = "newEngine constNoise 0 Flat Survival (INITIAL_SETTINGS\<lparr>renderDistance := 2\<rparr>) []
      (0, 80, 0) (replicate 36 None) (\<lambda>n. 0)"
  have p: "playerPos ?s = (0, 80, 0)" by (simp add: newEngine_def)
  have e: "chunks ?s = [] \<and> \<lfloor>0 / 16 :: real\<rfloor> = 0 \<and> \<lfloor>0 / 16 :: real\<rfloor> = 0 \<and> renderDistance (settings ?s) = 2"
    by (simp add: newEngine_def INITIAL_SETTINGS_def)
  from streaming_pass[OF p] e
  have "residentKeys (updateWorldChunks ?s) = {- 2 .. 2} \<times> {- 2 .. 2} \<and>
        length (chunks (updateWorldChunks ?s)) = 25" by blast
  then show ?thesis using p by (simp add: constructEngine_def)
qed

section \<open>Overlay precedence\<close>



lemma localCoord_16: "((x::int) smod 16 + 16) smod 16 = x mod 16"
  using localCoord_eq[of x] by (simp add: localCoord_def CHUNK_SIZE_def)

lemma applyModification_eq:
  "applyModification cx cz entry d = (if inChunk cx cz entry then store d (entryIndex entry) (snd entry) else d)"
proof -
  obtain gx gy gz v where e: "entry = ((gx, gy, gz), v)" by (cases entry) auto
  show ?thesis
    unfolding e applyModification_def inChunk_def entryIndex_def cellIndex_def Let_def CHUNK_SIZE_def
      CHUNK_HEIGHT_def
    by (simp add: localCoord_16)
qed

lemma applyModifications_filter:
  "applyModifications cx cz d ov =
     fold (\<lambda>a d. store d (entryIndex a) (snd a)) (filter (inChunk cx cz) ov) d"
  unfolding applyModifications_def
  by (induction ov arbitrary: d) (simp_all add: applyModification_eq)

lemma length_applyModifications [simp]: "length (applyModifications cx cz d ov) = length d"
  by (simp add: applyModifications_filter)

lemma in_chunk_div_mod:
  assumes "c * 16 \<le> g" "g < (c + 1) * (16::int)"
  shows "g div 16 = c" "g mod 16 = g - c * 16"
proof -
  have e: "g = 16 * c + (g - c * 16)" by simp
  have r: "0 \<le> g - c * 16" "g - c * 16 < 16" using assms by simp_all
  show "g div 16 = c" by (rule int_div_pos_eq[OF e r])
  show "g mod 16 = g - c * 16" by (rule int_mod_pos_eq[OF e r])
qed

lemma inChunk_index_inj:
  assumes "inChunk cx cz a" "inChunk cx cz b" "entryIndex a = entryIndex b"
  shows "fst a = fst b"
proof -
  obtain gx gy gz v where a: "a = ((gx, gy, gz), v)" by (cases a) auto
  obtain hx hy hz w where b: "b = ((hx, hy, hz), w)" by (cases b) auto
  have e: "gx mod 16 = hx mod 16 \<and> gz mod 16 = hz mod 16 \<and> gy = hy"
    using assms(3) by (simp add: a b entryIndex_def cellIndex_eq_iff)
  have "gx div 16 = cx" "hx div 16 = cx" "gz div 16 = cz" "hz div 16 = cz"
    using assms(1,2) unfolding a b inChunk_def by (simp_all add: in_chunk_div_mod)
  then show ?thesis
    using e div_mod_eq_iff[of gx hx] div_mod_eq_iff[of gz hz] by (simp add: a b)
qed

lemma applyModifications_nth:
  assumes "distinct (map fst ov)" "entry \<in> set ov" "inChunk cx cz entry" "length d = 65536"
  shows "applyModifications cx cz d ov ! nat (entryIndex entry) = snd entry mod 256"
proof -
  let ?as = "filter (inChunk cx cz) ov"
  have mem: "entry \<in> set ?as" using assms(2,3) by simp
  have dist: "distinct ?as" using assms(1) by (simp add: distinct_map)
  have inj: "inj_on entryIndex (set ?as)"
  proof (rule inj_onI)
    fix a b assume ab: "a \<in> set ?as" "b \<in> set ?as" "entryIndex a = entryIndex b"
    then have "fst a = fst b" using inChunk_index_inj[of cx cz a b] by simp
    moreover have "inj_on fst (set ov)" using assms(1) by (simp add: distinct_map)
    ultimately show "a = b" using ab by (auto dest: inj_onD)
  qed
  obtain gx gy gz v where e: "entry = ((gx, gy, gz), v)" by (cases entry) auto
  have r: "0 \<le> entryIndex entry" "entryIndex entry < int (length d)"
    using assms(3,4) by (simp_all add: e inChunk_def entryIndex_def)
  show ?thesis
    unfolding applyModifications_filter
    by (rule fold_store_hit[OF mem inj dist r])
qed


lemma length_fold_gen:
  assumes "\<And>a st. length (gdata (f a st)) = length (gdata st)"
  shows "length (gdata (fold f as st)) = length (gdata st)"
  by (induction as arbitrary: st) (simp_all add: assms)

lemma length_put [simp]: "length (gdata (put i v st)) = length (gdata st)"
  by (simp add: put_def)

lemma length_putIfAir [simp]: "length (gdata (putIfAir i v st)) = length (gdata st)"
  by (simp add: putIfAir_def)

lemma length_makeTreeLeaf [simp]:
  "length (gdata (makeTreeLeaf x z y l h ly r lx lz st)) = length (gdata st)"
  by (simp add: makeTreeLeaf_def split: prod.splits)

lemma length_makeTree [simp]: "length (gdata (makeTree x z y t l h st)) = length (gdata st)"
  unfolding makeTree_def Let_def
  by (simp add: length_fold_gen)

lemma length_spruceLeaf [simp]: "length (gdata (spruceLeaf x z y i r lx lz st)) = length (gdata st)"
  by (simp add: spruceLeaf_def)

lemma length_makeSpruceTree [simp]: "length (gdata (makeSpruceTree x z y st)) = length (gdata st)"
  unfolding makeSpruceTree_def Let_def
  by (simp add: length_fold_gen)

lemma length_acaciaLeaf [simp]: "length (gdata (acaciaLeaf x z y lx lz st)) = length (gdata st)"
  by (simp add: acaciaLeaf_def)

lemma length_makeAcaciaTree [simp]: "length (gdata (makeAcaciaTree x z y st)) = length (gdata st)"
  unfolding makeAcaciaTree_def Let_def
  by (simp add: length_fold_gen)

lemma length_genColumn [simp]: "length (gdata (genColumn cm wt cx cz x z st)) = length (gdata st)"
  unfolding genColumn_def Let_def
  by (simp add: length_fold_gen split: prod.splits)

lemma length_decorateColumn [simp]: "length (gdata (decorateColumn sd cx cz x z st)) = length (gdata st)"
  unfolding decorateColumn_def Let_def
  by simp

lemma length_generateChunkData [simp]:
  "length (fst (generateChunkData cm cx cz sd wt ov rnd)) = 65536"
  unfolding generateChunkData_def Let_def
  by (simp add: length_fold_gen CHUNK_SIZE_def CHUNK_HEIGHT_def)

lemma generateChunkData_overlay:
  "\<exists>d. length d = 65536 \<and> fst (generateChunkData cm cx cz sd wt ov rnd) = applyModifications cx cz d ov"
proof (cases "wt = Flat")
  case True
  then show ?thesis
    by (intro exI[of _ "flatData (replicate 65536 0)"])
       (simp add: generateChunkData_def CHUNK_SIZE_def CHUNK_HEIGHT_def)
next
  case False
  let ?st0 = "\<lparr>gdata = replicate 65536 0, heights = replicate 256 0, biomeMap = replicate 256 0,
                random = rnd\<rparr>"
  let ?st = "fold (\<lambda>x. fold (decorateColumn sd cx cz x) [0 .. 15]) [0 .. 15]
              (fold (\<lambda>x. fold (genColumn cm wt cx cz x) [0 .. 15]) [0 .. 15] ?st0)"
  have "length (gdata ?st) = 65536" by (simp add: length_fold_gen)
  moreover have "fst (generateChunkData cm cx cz sd wt ov rnd) = applyModifications cx cz (gdata ?st) ov"
    using False by (simp add: generateChunkData_def Let_def CHUNK_SIZE_def CHUNK_HEIGHT_def)
  ultimately show ?thesis by blast
qed

text \<open>
  C3. For an overlay with one entry per coordinate and every entry of it that lies in the
  generated chunk and inside the vertical bound, the cell of that coordinate in the buffer
  returned by \<^verbatim>\<open>generateChunkData\<close> holds the entry's block type, in every world mode
  (block types are byte-sized).
\<close>

theorem overlay_precedence:
  assumes "distinct (map fst ov)" "((gx, gy, gz), val) \<in> set ov"
    "cx * 16 \<le> gx" "gx < (cx + 1) * 16" "cz * 16 \<le> gz" "gz < (cz + 1) * 16" "0 \<le> gy" "gy < 256"
    "val < 256"
  shows "fst (generateChunkData cm cx cz sd wt ov rnd) ! nat ((gx - cx * 16) + (gz - cz * 16) * 16 + gy * 256) = val"
proof -
  obtain d where d: "length d = 65536"
    "fst (generateChunkData cm cx cz sd wt ov rnd) = applyModifications cx cz d ov"
    using generateChunkData_overlay by blast
  have inC: "inChunk cx cz ((gx, gy, gz), val)"
    using assms by (simp add: inChunk_def)
  have idx: "entryIndex ((gx, gy, gz), val) = (gx - cx * 16) + (gz - cz * 16) * 16 + gy * 256"
    using assms by (simp add: entryIndex_def cellIndex_def in_chunk_div_mod)
  show ?thesis
    using applyModifications_nth[OF assms(1,2) inC d(1)] assms(9)
    unfolding d(2) idx by simp
qed

theorem overlay_precedence_witness:
  "distinct (map fst sampleOverlay) \<and> ((17, 0, - 3), DIAMOND_BLOCK) \<in> set sampleOverlay \<and>
   fst (generateChunkData constNoise 1 (- 1) 0 Flat sampleOverlay (\<lambda>n. 0)) ! nat (1 + 13 * 16 + 0 * 256)
     = DIAMOND_BLOCK \<and>
   fst (generateChunkData constNoise 1 (- 1) 0 Default sampleOverlay (\<lambda>n. 0)) ! nat (1 + 13 * 16 + 0 * 256)
     = DIAMOND_BLOCK"
proof -
  have 1: "distinct (map fst sampleOverlay)" by (simp add: sampleOverlay_def)
  have 2: "((17, 0, - 3), DIAMOND_BLOCK) \<in> set sampleOverlay" by (simp add: sampleOverlay_def)
  have 3: "DIAMOND_BLOCK < 256" by (simp add: BlockType_defs)
  show ?thesis
    using overlay_precedence[OF 1 2 _ _ _ _ _ _ 3, of 1 "- 1" constNoise 0 Flat "\<lambda>n. 0"]
      overlay_precedence[OF 1 2 _ _ _ _ _ _ 3, of 1 "- 1" constNoise 0 Default "\<lambda>n. 0"] 1 2
    by simp
qed

section \<open>Ambient occlusion\<close>



lemma geoOf_upd [simp]: "geoOf (g(b \<mapsto> geo)) b = geo"
  by (simp add: geoOf_def)
















section \<open>Face culling\<close>














lemma set_ranges [simp]:
  "set [0 .. CHUNK_SIZE - 1] = {0 .. 15}" "set [0 .. CHUNK_HEIGHT - 1] = {0 .. 255}"
  by (simp_all add: CHUNK_SIZE_def CHUNK_HEIGHT_def)



subsection \<open>A solid chunk among solid neighbours\<close>






subsection \<open>One solid voxel in the air\<close>
















section \<open>Terrain generation and \<^verbatim>\<open>Math.random()\<close>\<close>



lemma keepsI: "(\<And>st. P st \<Longrightarrow> P (f st)) \<Longrightarrow> keeps P f"
  by (simp add: keeps_def)

lemma keepsD: "keeps P f \<Longrightarrow> P st \<Longrightarrow> P (f st)"
  by (simp add: keeps_def)

lemma keeps_id: "keeps P (\<lambda>st. st)"
  by (simp add: keeps_def)

lemma keeps_fold: "(\<And>a. a \<in> set as \<Longrightarrow> keeps P (f a)) \<Longrightarrow> keeps P (fold f as)"
proof (induction as)
  case Nil
  then show ?case by (simp add: keeps_def)
next
  case (Cons a as)
  then have "keeps P (f a)" "keeps P (fold f as)" by simp_all
  then show ?case by (simp add: keeps_def)
qed

lemma keeps_comp: "keeps P f \<Longrightarrow> keeps P g \<Longrightarrow> keeps P (\<lambda>st. g (f st))"
  by (simp add: keeps_def)

lemma other_column_index:
  assumes "0 \<le> x" "x \<le> 15" "0 \<le> z" "z \<le> 15" "(x, z) \<noteq> (0, 0)"
  shows "x + z * 16 + y * 256 \<noteq> (28672::int)"
proof
  assume "x + z * 16 + y * 256 = 28672"
  then have "x + z * 16 + y * 256 = 0 + 0 * 16 + 112 * 256" by simp
  from cell_index_inj[OF assms(1-4) _ _ _ _ this] show False using assms(5) by simp
qed

lemma nth_store_nat:
  "store d i v ! k = (if 0 \<le> i \<and> nat i = k \<and> k < length d then v mod 256 else d ! k)"
  by (auto simp: store_def nth_list_update)

lemma put_surfaceIs:
  "i \<noteq> 28672 \<Longrightarrow> keeps (surfaceIs v c) (put i b)"
  by (rule keepsI) (auto simp: surfaceIs_def put_def nth_store_nat)

lemma putIfAir_surfaceIs:
  assumes "v \<noteq> AIR"
  shows "keeps (surfaceIs v c) (putIfAir i l)"
proof (rule keepsI)
  fix st assume s: "surfaceIs v c st"
  show "surfaceIs v c (putIfAir i l st)"
  proof (cases "gdata st ! nat i = AIR")
    case False
    then show ?thesis using s by (simp add: putIfAir_def)
  next
    case True
    then have "i \<noteq> 28672" using s assms by (auto simp: surfaceIs_def)
    then show ?thesis
      using True s keepsD[OF put_surfaceIs] by (simp add: putIfAir_def)
  qed
qed

lemma mathRandom_const: "mathRandom (\<lambda>n. c) = (c, \<lambda>n. c)"
  by (simp add: mathRandom_def)

lemma makeTreeLeaf_surfaceIs:
  assumes "v \<noteq> AIR"
  shows "keeps (surfaceIs v c) (makeTreeLeaf x z y l h ly r lx lz)"
proof (rule keepsI)
  fix st assume s: "surfaceIs v c st"
  then have r: "random st = (\<lambda>n. c)" by (simp add: surfaceIs_def)
  have s': "surfaceIs v c (st\<lparr>random := \<lambda>n. c\<rparr>)" using s by (simp add: surfaceIs_def)
  show "surfaceIs v c (makeTreeLeaf x z y l h ly r lx lz st)"
    using s s' keepsD[OF putIfAir_surfaceIs[OF assms]]
    by (simp add: makeTreeLeaf_def r mathRandom_const)
qed

lemma makeTree_surfaceIs:
  assumes "v \<noteq> AIR"
  shows "keeps (surfaceIs v c) (makeTree x z y t l h)"
proof (cases "y + h + 2 \<ge> CHUNK_HEIGHT \<or> x < 2 \<or> x > 13 \<or> z < 2 \<or> z > 13")
  case True
  then show ?thesis by (intro keepsI) (simp add: makeTree_def)
next
  case False
  then have xz: "0 \<le> x" "x \<le> 15" "0 \<le> z" "z \<le> 15" "(x, z) \<noteq> (0, 0)" by auto
  have trunk: "keeps (surfaceIs v c) (fold (\<lambda>i. put (x + z * 16 + (y + i) * 256) t) [0 .. h - 1])"
    by (intro keeps_fold put_surfaceIs other_column_index[OF xz])
  have leaves: "keeps (surfaceIs v c)
      (fold (\<lambda>ly. let r = (if ly > y + h - 1 then 1 else 2) in
                   fold (\<lambda>lx. fold (makeTreeLeaf x z y l h ly r lx) [z - r .. z + r]) [x - r .. x + r])
            [y + h - 2 .. y + h + 1])"
    unfolding Let_def
    by (intro keeps_fold makeTreeLeaf_surfaceIs[OF assms])
  have "makeTree x z y t l h = (\<lambda>st.
      fold (\<lambda>ly. let r = (if ly > y + h - 1 then 1 else 2) in
                   fold (\<lambda>lx. fold (makeTreeLeaf x z y l h ly r lx) [z - r .. z + r]) [x - r .. x + r])
            [y + h - 2 .. y + h + 1]
        (fold (\<lambda>i. put (x + z * 16 + (y + i) * 256) t) [0 .. h - 1] st))"
    using False by (intro ext) (simp add: makeTree_def Let_def)
  then show ?thesis using keeps_comp[OF trunk leaves] by simp
qed


lemma spruceLeaf_surfaceIs:
  assumes "v \<noteq> AIR"
  shows "keeps (surfaceIs v c) (spruceLeaf x z y i r lx lz)"
  using putIfAir_surfaceIs[OF assms] by (simp add: keeps_def spruceLeaf_def)

lemma makeSpruceTree_surfaceIs:
  assumes "v \<noteq> AIR"
  shows "keeps (surfaceIs v c) (makeSpruceTree x z y)"
proof (cases "y + 8 \<ge> 256 \<or> x < 3 \<or> x > 12 \<or> z < 3 \<or> z > 12")
  case True
  then show ?thesis by (intro keepsI) (simp add: makeSpruceTree_def)
next
  case False
  then have xz: "0 \<le> x" "x \<le> 15" "0 \<le> z" "z \<le> 15" "(x, z) \<noteq> (0, 0)" by auto
  have trunk: "keeps (surfaceIs v c) (fold (\<lambda>i. put (x + z * 16 + (y + i) * 256) SPRUCE_LOG) [0 .. 5])"
    by (intro keeps_fold put_surfaceIs other_column_index[OF xz])
  have tip: "keeps (surfaceIs v c) (put (x + z * 16 + (y + 6) * 256) SPRUCE_LEAVES)"
    by (intro put_surfaceIs other_column_index[OF xz])
  have leaves: "keeps (surfaceIs v c)
      (fold (\<lambda>i. let r = (if i smod 2 = 0 then 2 else 1) in
                   fold (\<lambda>lx. fold (spruceLeaf x z y i r lx) [z - r .. z + r]) [x - r .. x + r])
            [2 .. 5])"
    unfolding Let_def
    by (intro keeps_fold spruceLeaf_surfaceIs[OF assms])
  have "makeSpruceTree x z y = (\<lambda>st.
      fold (\<lambda>i. let r = (if i smod 2 = 0 then 2 else 1) in
                   fold (\<lambda>lx. fold (spruceLeaf x z y i r lx) [z - r .. z + r]) [x - r .. x + r])
            [2 .. 5]
        (put (x + z * 16 + (y + 6) * 256) SPRUCE_LEAVES
          (fold (\<lambda>i. put (x + z * 16 + (y + i) * 256) SPRUCE_LOG) [0 .. 5] st)))"
    using False by (intro ext) (simp add: makeSpruceTree_def Let_def)
  then show ?thesis using keeps_comp[OF keeps_comp[OF trunk tip] leaves] by simp
qed

lemma acaciaLeaf_surfaceIs:
  assumes "3 \<le> x" "x \<le> 12" "3 \<le> z" "z \<le> 12" "lx \<in> set [x - 2 .. x + 2]" "lz \<in> set [z - 2 .. z + 2]"
  shows "keeps (surfaceIs v c) (acaciaLeaf x z y lx lz)"
proof -
  have "0 \<le> lx" "lx \<le> 15" "0 \<le> lz" "lz \<le> 15" "(lx, lz) \<noteq> (0, 0)" using assms by auto
  then have "keeps (surfaceIs v c) (put (lx + lz * 16 + (y + 4) * 256) ACACIA_LEAVES)"
    by (intro put_surfaceIs other_column_index)
  then show ?thesis by (simp add: keeps_def acaciaLeaf_def)
qed

lemma makeAcaciaTree_surfaceIs: "keeps (surfaceIs v c) (makeAcaciaTree x z y)"
proof (cases "y + 6 \<ge> 256 \<or> x < 3 \<or> x > 12 \<or> z < 3 \<or> z > 12")
  case True
  then show ?thesis by (intro keepsI) (simp add: makeAcaciaTree_def)
next
  case False
  then have xz: "0 \<le> x" "x \<le> 15" "0 \<le> z" "z \<le> 15" "(x, z) \<noteq> (0, 0)"
    and r: "3 \<le> x" "x \<le> 12" "3 \<le> z" "z \<le> 12" by auto
  have trunk: "keeps (surfaceIs v c) (fold (\<lambda>i. put (x + z * 16 + (y + i) * 256) ACACIA_LOG) [0 .. 3])"
    by (intro keeps_fold put_surfaceIs other_column_index[OF xz])
  have leaves: "keeps (surfaceIs v c)
      (fold (\<lambda>lx. fold (acaciaLeaf x z y lx) [z - 2 .. z + 2]) [x - 2 .. x + 2])"
    by (intro keeps_fold acaciaLeaf_surfaceIs[OF r])
  have "makeAcaciaTree x z y = (\<lambda>st.
      fold (\<lambda>lx. fold (acaciaLeaf x z y lx) [z - 2 .. z + 2]) [x - 2 .. x + 2]
        (fold (\<lambda>i. put (x + z * 16 + (y + i) * 256) ACACIA_LOG) [0 .. 3] st))"
    using False by (intro ext) (simp add: makeAcaciaTree_def Let_def)
  then show ?thesis using keeps_comp[OF trunk leaves] by simp
qed

lemma decorateColumn_surfaceIs:
  assumes "v \<noteq> AIR" "0 \<le> x" "x \<le> 15" "0 \<le> z" "z \<le> 15"
  shows "keeps (surfaceIs v c) (decorateColumn sd cx cz x z)"
proof (rule keepsI)
  fix st assume s: "surfaceIs v c st"
  define top where "top = heights st ! nat (x + z * CHUNK_SIZE) + 1"
  have idx: "x + z * CHUNK_SIZE + top * 256 \<noteq> 28672"
  proof (cases "(x, z) = (0, 0)")
    case True
    then have "top = 113" using s by (simp add: top_def surfaceIs_def)
    then show ?thesis using True by simp
  next
    case False
    then show ?thesis
      unfolding CHUNK_SIZE_def by (intro other_column_index assms(2-5))
  qed
  note k = keepsD[OF put_surfaceIs[OF idx] s]
    keepsD[OF makeTree_surfaceIs[OF assms(1)] s]
    keepsD[OF makeSpruceTree_surfaceIs[OF assms(1)] s]
    keepsD[OF makeAcaciaTree_surfaceIs s]
  show "surfaceIs v c (decorateColumn sd cx cz x z st)"
    unfolding decorateColumn_def Let_def top_def[symmetric]
    using s k by simp
qed


lemma classifyBiome_const: "snd (classifyBiome h t m (\<lambda>n. c)) = (\<lambda>n. c)"
  by (simp add: classifyBiome_def mathRandom_const Let_def)

lemma genColumn_surfaceIs:
  assumes "0 \<le> x" "x \<le> 15" "0 \<le> z" "z \<le> 15" "(x, z) \<noteq> (0, 0)"
  shows "keeps (surfaceIs v c) (genColumn cm wt cx cz x z)"
proof (rule keepsI)
  fix st assume s: "surfaceIs v c st"
  define h where "h = clampHeight (terrainHeightAt cm wt (real_of_int (cx * CHUNK_SIZE + x) + seedOffset cm)
      (real_of_int (cz * CHUNK_SIZE + z) + seedOffset cm))"
  define temp where "temp = noise2D cm ((real_of_int (cx * CHUNK_SIZE + x) + seedOffset cm) * 0.0008 + 100)
      ((real_of_int (cz * CHUNK_SIZE + z) + seedOffset cm) * 0.0008 + 100)"
  define moisture where "moisture = noise2D cm ((real_of_int (cx * CHUNK_SIZE + x) + seedOffset cm) * 0.0008 + 500)
      ((real_of_int (cz * CHUNK_SIZE + z) + seedOffset cm) * 0.0008 + 500)"
  obtain biomeId surface sub rest where cb:
    "classifyBiome h temp moisture (random st) = ((biomeId, surface, sub), rest)"
    by (metis prod_cases3 surj_pair)
  have "random st = (\<lambda>n. c)" using s by (simp add: surfaceIs_def)
  then have rest: "rest = (\<lambda>n. c)" using cb classifyBiome_const[of h temp moisture c] by simp
  have "nat (x + z * CHUNK_SIZE) \<noteq> 0" using assms by (auto simp: CHUNK_SIZE_def)
  then have s': "surfaceIs v c (st\<lparr>heights := (heights st)[nat (x + z * CHUNK_SIZE) := h],
       biomeMap := (biomeMap st)[nat (x + z * CHUNK_SIZE) := biomeId], random := rest\<rparr>)"
    using s rest by (simp add: surfaceIs_def)
  have "keeps (surfaceIs v c)
     (fold (\<lambda>y. put (x + z * CHUNK_SIZE + y * 256)
                  (columnBlock cm (real_of_int (cx * CHUNK_SIZE + x) + seedOffset cm)
                     (real_of_int (cz * CHUNK_SIZE + z) + seedOffset cm) h biomeId surface sub y))
           [0 .. CHUNK_HEIGHT - 1])"
    unfolding CHUNK_SIZE_def by (intro keeps_fold put_surfaceIs other_column_index assms)
  from keepsD[OF this s'] show "surfaceIs v c (genColumn cm wt cx cz x z st)"
    unfolding genColumn_def Let_def h_def[symmetric] temp_def[symmetric] moisture_def[symmetric] cb
    by simp
qed

lemma terrainHeight_constNoise: "clampHeight (terrainHeightAt constNoise Default 0 0) = 112"
proof -
  have "terrainHeightAt constNoise Default 0 0 = 38643 / 343"
    by (simp add: terrainHeightAt_def constNoise_def Let_def SEA_LEVEL_def)
  moreover have "\<lfloor>38643 / 343 :: real\<rfloor> = 112" by (simp add: floor_eq_iff)
  ultimately have "\<lfloor>terrainHeightAt constNoise Default 0 0\<rfloor> = 112" by (simp only:)
  then show ?thesis by (simp add: clampHeight_def Let_def CHUNK_HEIGHT_def)
qed


lemma fold_put_fields:
  "gdata (fold (\<lambda>y. put (ix y) (val y)) ys st) = fold (\<lambda>y d. store d (ix y) (val y)) ys (gdata st)"
  "heights (fold (\<lambda>y. put (ix y) (val y)) ys st) = heights st"
  "random (fold (\<lambda>y. put (ix y) (val y)) ys st) = random st"
  by (induction ys arbitrary: st) (simp_all add: put_def)

lemma classifyBiome_first:
  "0 \<le> rnd 0 \<Longrightarrow> classifyBiome 112 (1 / 2) (1 / 2) rnd =
     (if rnd 0 > 1 / 2 then (3, GRASS, DIRT) else (7, PODZOL, DIRT), \<lambda>n. rnd (Suc n))"
  by (simp add: classifyBiome_def mathRandom_def Let_def SEA_LEVEL_def field_simps)

lemma columnBlock_surface:
  "biomeId = 3 \<or> biomeId = 7 \<Longrightarrow> columnBlock cm wx wz 112 biomeId surface sub 112 = surface"
  by (auto simp: columnBlock_def Let_def SEA_LEVEL_def)

text \<open>The first column of chunk \<open>(0, 0)\<close> under constant noise: its surface block depends on the
  first random draw.\<close>

lemma first_column:
  assumes "\<And>n. rnd (Suc n) = c" and nonneg: "0 \<le> rnd 0"
  shows "surfaceIs (if rnd 0 > 1 / 2 then GRASS else PODZOL) c
          (genColumn constNoise Default 0 0 0 0
             \<lparr>gdata = replicate 65536 0, heights = replicate 256 0, biomeMap = replicate 256 0,
              random = rnd\<rparr>)"
proof -
  let ?st0 = "\<lparr>gdata = replicate 65536 0, heights = replicate 256 0, biomeMap = replicate 256 0,
              random = rnd\<rparr>"
  define biomeId :: nat where "biomeId = (if rnd 0 > 1 / 2 then 3 else 7)"
  define surface where "surface = (if rnd 0 > 1 / 2 then GRASS else PODZOL)"
  have cb: "classifyBiome 112 (1 / 2) (1 / 2) rnd = ((biomeId, surface, DIRT), \<lambda>n. c)"
    using nonneg by (simp add: classifyBiome_first biomeId_def surface_def assms(1))
  let ?st1 = "?st0\<lparr>heights := (heights ?st0)[nat (0 + 0 * CHUNK_SIZE) := 112],
                   biomeMap := (biomeMap ?st0)[nat (0 + 0 * CHUNK_SIZE) := biomeId],
                   random := \<lambda>n. c\<rparr>"
  let ?val = "\<lambda>y. columnBlock constNoise 0 0 112 biomeId surface DIRT y"
  let ?ix = "\<lambda>y. 0 + 0 * 16 + y * (256::int)"
  have gen: "genColumn constNoise Default 0 0 0 0 ?st0 = fold (\<lambda>y. put (?ix y) (?val y)) [0 .. 255] ?st1"
    by (simp add: genColumn_def Let_def terrainHeight_constNoise cb CHUNK_SIZE_def CHUNK_HEIGHT_def
        constNoise_def[THEN arg_cong[of _ _ seedOffset]] constNoise_def[THEN arg_cong[of _ _ noise2D]])
  have "fold (\<lambda>y d. store d (?ix y) (?val y)) [0 .. 255] (gdata ?st1) ! nat (?ix 112) = ?val 112 mod 256"
    by (rule fold_store_hit) (simp_all add: inj_on_def)
  moreover have "?val 112 = surface"
    by (rule columnBlock_surface) (simp add: biomeId_def)
  moreover have "surface mod 256 = surface" by (simp add: surface_def BlockType_defs)
  ultimately have "gdata (fold (\<lambda>y. put (?ix y) (?val y)) [0 .. 255] ?st1) ! 28672 = surface"
    by (simp add: fold_put_fields)
  then show ?thesis
    unfolding gen surfaceIs_def surface_def[symmetric]
    by (simp add: fold_put_fields)
qed


lemma upto_0_15: "[0 .. 15] = 0 # [1 .. 15]"
  by (simp add: upto_rec1)

lemma generate_surface:
  assumes later: "\<And>n. rnd (Suc n) = c" and nonneg: "0 \<le> rnd 0"
  shows "fst (generateChunkData constNoise 0 0 sd Default [] rnd) ! 28672 =
           (if rnd 0 > 1 / 2 then GRASS else PODZOL)
         \<and> snd (generateChunkData constNoise 0 0 sd Default [] rnd) = (\<lambda>n. c)"
proof -
  define v where "v = (if rnd 0 > 1 / 2 then GRASS else PODZOL)"
  have v: "v \<noteq> AIR" by (simp add: v_def BlockType_defs)
  let ?P = "surfaceIs v c"
  let ?st0 = "\<lparr>gdata = replicate 65536 0, heights = replicate 256 0, biomeMap = replicate 256 0,
              random = rnd\<rparr>"
  let ?gen = "genColumn constNoise Default 0 0"
  have p1: "?P (?gen 0 0 ?st0)"
    unfolding v_def by (rule first_column[OF later nonneg])
  have "keeps ?P (fold (?gen 0) [1 .. 15])"
    by (rule keeps_fold, rule genColumn_surfaceIs) auto
  from keepsD[OF this p1] have p2: "?P (fold (?gen 0) [1 .. 15] (?gen 0 0 ?st0))" .
  have "keeps ?P (fold (\<lambda>x. fold (?gen x) [0 .. 15]) [1 .. 15])"
    by (rule keeps_fold, rule keeps_fold, rule genColumn_surfaceIs) auto
  from keepsD[OF this p2]
  have p3: "?P (fold (\<lambda>x. fold (?gen x) [0 .. 15]) [0 .. 15] ?st0)"
    by (simp add: upto_0_15)
  have "keeps ?P (fold (\<lambda>x. fold (decorateColumn sd 0 0 x) [0 .. 15]) [0 .. 15])"
    by (rule keeps_fold, rule keeps_fold, rule decorateColumn_surfaceIs[OF v]) auto
  from keepsD[OF this p3]
  have "?P (fold (\<lambda>x. fold (decorateColumn sd 0 0 x) [0 .. 15]) [0 .. 15]
             (fold (\<lambda>x. fold (?gen x) [0 .. 15]) [0 .. 15] ?st0))" .
  then show ?thesis
    unfolding v_def[symmetric]
    by (simp add: generateChunkData_def Let_def applyModifications_def CHUNK_SIZE_def
        CHUNK_HEIGHT_def surfaceIs_def)
qed

text \<open>C1. Generation is not a function of the chunk coordinates, the seed, the mode and the
  overlay alone: the biome of a column is jittered by a draw of \<open>Math.random()\<close>. With a
  temperature and moisture noise of \<open>0.5\<close> everywhere, seed offset \<open>0\<close>, chunk \<open>(0, 0)\<close>,
  mode Default and an empty overlay, the column \<open>(0, 0)\<close> has height \<open>112\<close>; when the first draw
  is \<open>0\<close> its surface cell (index \<open>112 * 256\<close>) is podzol, and when the same call is repeated
  with the generator where the first call left it (every later draw \<open>0.9\<close>) that cell is grass,
  so the two buffers differ.\<close>

theorem generation_depends_on_Math_random:
  "fst (generateChunkData constNoise 0 0 0 Default [] (\<lambda>n. if n = 0 then 0 else 9 / 10)) ! 28672
     = PODZOL
   \<and> fst (generateChunkData constNoise 0 0 0 Default []
            (snd (generateChunkData constNoise 0 0 0 Default []
                    (\<lambda>n. if n = 0 then 0 else 9 / 10)))) ! 28672
     = GRASS
   \<and> fst (generateChunkData constNoise 0 0 0 Default [] (\<lambda>n. if n = 0 then 0 else 9 / 10))
     \<noteq> fst (generateChunkData constNoise 0 0 0 Default []
            (snd (generateChunkData constNoise 0 0 0 Default []
                    (\<lambda>n. if n = 0 then 0 else 9 / 10))))"
proof -
  let ?r = "\<lambda>n::nat. if n = 0 then 0 else 9 / 10 :: real"
  have a: "fst (generateChunkData constNoise 0 0 0 Default [] ?r) ! 28672 = PODZOL
         \<and> snd (generateChunkData constNoise 0 0 0 Default [] ?r) = (\<lambda>n. 9 / 10)"
    using generate_surface[of ?r "9 / 10" 0] by simp
  have b: "fst (generateChunkData constNoise 0 0 0 Default [] (\<lambda>n. 9 / 10 :: real)) ! 28672 = GRASS"
    using generate_surface[of "\<lambda>n. 9 / 10 :: real" "9 / 10" 0] by simp
  have c: "PODZOL \<noteq> GRASS" by (simp add: BlockType_defs)
  from a b c show ?thesis by (metis (no_types, lifting))
qed

end
